theory Spec2Isabelle
  imports Main "HOL-Library.AList"
begin

section \<open>The subprocess node controller (sawtooth/manage/subproc.py)\<close>

text \<open>
  The controller is a Python object whose only mutable attribute is the registry
  \<open>_nodes\<close>; everything else it does is an effect on the operating system: it polls,
  spawns, signals and waits for child processes, creates a directory, writes a file and
  logs. The model threads two values through every method: the controller and a
  \<open>world\<close>, the operating system as the controller sees it. A method returns an
  outcome together with the controller and the world it leaves behind, so that what an
  exception leaves on disk or in the registry is part of the result.
\<close>

subsection \<open>Outcomes\<close>

text \<open>
  \<open>OSError\<close>, \<open>IOError\<close> and \<open>RuntimeError\<close> carry \<open>str(e)\<close>; \<open>KeyError\<close> carries the
  missing key. \<open>IOError\<close> is what \<open>open\<close> raises; no method of the controller tells it
  from \<open>OSError\<close>.
  \<open>Blocks\<close> is the outcome of a call that never returns (\<open>proc.wait()\<close> on a child
  that never exits).
\<close>

datatype exn = OSError string | IOError string | KeyError string | RuntimeError string

datatype 'a outcome = Returns 'a | Raises exn | Blocks

subsection \<open>Data\<close>

text \<open>The caller's \<open>node_args\<close>: the attributes the controller reads.\<close>

record node_arguments =
  node_name :: string
  http_port :: int
  gossip_port :: int
  config_files :: "string list"
  genesis :: bool
  currency_home :: "string option"

text \<open>
  A \<open>subprocess.Popen\<close> object: the child's process id and the cached \<open>returncode\<close>,
  \<open>None\<close> until a poll or a wait has seen the child exit.
\<close>

record popen =
  pid :: nat
  returncode :: "int option"

datatype stream = Stdout | Stderr

datatype signal = SIGTERM | SIGKILL

text \<open>What the controller does to the operating system, in the order it does it.\<close>

datatype event =
    Spawn nat "string list" "(string \<times> string) list" "(stream \<times> stream) option"
  | Poll nat
  | Waited nat int
  | Signal nat signal
  | LogDebug string
  | MakeDirs string
  | WriteFile string string

datatype fs_node = Dir | File string

text \<open>
  The world. \<open>environ\<close> and \<open>sys_path\<close> are \<open>os.environ\<close> and \<open>sys.path\<close>;
  \<open>get_executable_script\<close> is the resolver imported from \<open>sawtooth.manage.utils\<close>,
  whose result is an argument-vector prefix; \<open>fs\<close> maps a path to what is there.
  The remaining fields say how the operating system answers: \<open>exit_status p\<close> is what a
  non-blocking \<open>waitpid\<close> on child \<open>p\<close> reports now (\<open>None\<close>: still running),
  \<open>wait_status p\<close> the status a blocking wait ends with (\<open>None\<close>: the child never
  exits), and \<open>makedirs_error\<close>, \<open>open_error\<close>, \<open>spawn_error\<close>, \<open>signal_error\<close>
  give the message of the error the call raises, if it raises. Between two calls of the
  controller the world may change in any way; a theorem about two calls says which
  world the second one runs in.
\<close>

record world =
  environ :: "(string \<times> string) list"
  sys_path :: "string list"
  get_executable_script :: "string \<Rightarrow> string list"
  fs :: "string \<rightharpoonup> fs_node"
  makedirs_error :: "string \<Rightarrow> string option"
  open_error :: "string \<Rightarrow> string option"
  spawn_error :: "string list \<Rightarrow> string option"
  signal_error :: "nat \<Rightarrow> string option"
  exit_status :: "nat \<Rightarrow> int option"
  wait_status :: "nat \<Rightarrow> int option"
  next_pid :: nat
  trace :: "event list"

text \<open>
  The base configuration comes from \<open>get_validator_configuration\<close>, which is not part
  of this module; the controller reads two entries of it.
\<close>

record validator_config =
  ConfigDirectory :: string
  KeyDirectory :: string

text \<open>
  The controller. The registry \<open>_nodes\<close> is a dict from node name to
  \<open>{"Handle": handle}\<close>; it is an association list here, a new key going to the end.
\<close>

record controller =
  host_name :: string
  verbose :: bool
  base_config :: validator_config
  v0_cfg :: "(string \<times> int) list"
  nodes :: "(string \<times> popen) list"

definition init :: "string \<Rightarrow> bool \<Rightarrow> validator_config \<Rightarrow> controller" where
  "init host verb base =
     \<lparr>host_name = host, verbose = verb, base_config = base,
      v0_cfg = [(''InitialConnectivity'', 0)], nodes = []\<rparr>"

subsection \<open>Library functions the controller calls\<close>

text \<open>\<open>str\<close> of an integer, as \<open>format\<close> and \<open>json.dumps\<close> print it.\<close>

fun str_nat :: "nat \<Rightarrow> string" where
  "str_nat n =
     (if n < 10 then [''0123456789'' ! n]
      else str_nat (n div 10) @ [''0123456789'' ! (n mod 10)])"

declare str_nat.simps [simp del]

definition str_int :: "int \<Rightarrow> string" where
  "str_int i = (if i < 0 then ''-'' @ str_nat (nat (- i)) else str_nat (nat i))"

text \<open>\<open>sep.join(xs)\<close>.\<close>

fun str_join :: "string \<Rightarrow> string list \<Rightarrow> string" where
  "str_join sep [] = []"
| "str_join sep [x] = x"
| "str_join sep (x # y # ys) = x @ sep @ str_join sep (y # ys)"

text \<open>\<open>os.path.join\<close> of two components and \<open>os.pathsep\<close>, on POSIX.\<close>

definition os_path_join :: "string \<Rightarrow> string \<Rightarrow> string" where
  "os_path_join a b =
     (if b \<noteq> [] \<and> hd b = CHR ''/'' then b
      else if a = [] \<or> last a = CHR ''/'' then a @ b
      else a @ ''/'' @ b)"

definition os_pathsep :: string where
  "os_pathsep = '':''"

text \<open>
  \<open>json.dumps(obj, indent=4)\<close> for a dict from strings to integers whose keys need no
  escaping, which is what \<open>_v0_cfg\<close> is.
\<close>

definition json_member :: "string \<times> int \<Rightarrow> string" where
  "json_member kv =
     ''    '' @ [CHR 0x22] @ fst kv @ [CHR 0x22] @ '': '' @ str_int (snd kv)"

definition json_dumps_indent4 :: "(string \<times> int) list \<Rightarrow> string" where
  "json_dumps_indent4 obj =
     (if obj = [] then ''{}''
      else ''{'' @ [CHR 0x0A] @ str_join ('','' @ [CHR 0x0A]) (map json_member obj)
           @ [CHR 0x0A] @ ''}'')"

definition os_path_exists :: "world \<Rightarrow> string \<Rightarrow> bool" where
  "os_path_exists w p = (fs w p \<noteq> None)"

text \<open>
  \<open>os.makedirs\<close> raises when the path exists, and when the operating system refuses.
\<close>

definition os_makedirs :: "world \<Rightarrow> string \<Rightarrow> unit outcome \<times> world" where
  "os_makedirs w p =
     (if fs w p \<noteq> None then (Raises (OSError (''[Errno 17] File exists: '' @ p)), w)
      else case makedirs_error w p of
             Some msg \<Rightarrow> (Raises (OSError msg), w)
           | None \<Rightarrow> (Returns (), w\<lparr>fs := (fs w)(p \<mapsto> Dir), trace := trace w @ [MakeDirs p]\<rparr>))"

text \<open>\<open>with open(p, 'w') as f: f.write(text)\<close>.\<close>

definition write_file :: "world \<Rightarrow> string \<Rightarrow> string \<Rightarrow> unit outcome \<times> world" where
  "write_file w p text =
     (if fs w p = Some Dir then (Raises (IOError (''[Errno 21] Is a directory: '' @ p)), w)
      else case open_error w p of
             Some msg \<Rightarrow> (Raises (IOError msg), w)
           | None \<Rightarrow>
               (Returns (), w\<lparr>fs := (fs w)(p \<mapsto> File text), trace := trace w @ [WriteFile p text]\<rparr>))"

text \<open>\<open>subprocess.Popen(cmd, stdout=.., stderr=.., env=..)\<close>.\<close>

definition popen_spawn ::
  "world \<Rightarrow> string list \<Rightarrow> (stream \<times> stream) option \<Rightarrow> (string \<times> string) list
     \<Rightarrow> popen outcome \<times> world" where
  "popen_spawn w cmd io env =
     (case spawn_error w cmd of
        Some msg \<Rightarrow> (Raises (OSError msg), w)
      | None \<Rightarrow>
          (Returns \<lparr>pid = next_pid w, returncode = None\<rparr>,
           w\<lparr>next_pid := Suc (next_pid w),
             trace := trace w @ [Spawn (next_pid w) cmd env io]\<rparr>))"

text \<open>
  \<open>handle.poll()\<close>: once \<open>returncode\<close> is set the operating system is not asked again.
  The handle is returned as the call leaves it.
\<close>

definition poll :: "world \<Rightarrow> popen \<Rightarrow> popen \<times> world" where
  "poll w h =
     (case returncode h of
        Some rc \<Rightarrow> (h, w)
      | None \<Rightarrow> (h\<lparr>returncode := exit_status w (pid h)\<rparr>, w\<lparr>trace := trace w @ [Poll (pid h)]\<rparr>))"

text \<open>\<open>proc.wait()\<close>: returns when the child has exited, never if it does not.\<close>

definition popen_wait :: "world \<Rightarrow> popen \<Rightarrow> popen outcome \<times> world" where
  "popen_wait w h =
     (case returncode h of
        Some rc \<Rightarrow> (Returns h, w)
      | None \<Rightarrow>
          (case wait_status w (pid h) of
             None \<Rightarrow> (Blocks, w)
           | Some rc \<Rightarrow>
               (Returns (h\<lparr>returncode := Some rc\<rparr>), w\<lparr>trace := trace w @ [Waited (pid h) rc]\<rparr>)))"

text \<open>
  \<open>handle.terminate()\<close> and \<open>handle.kill()\<close> send a signal to the child with
  \<open>os.kill\<close>, which raises \<open>OSError\<close> when the operating system refuses (no such
  process, among others). The signal is sent without another poll.
\<close>

definition send_signal :: "world \<Rightarrow> popen \<Rightarrow> signal \<Rightarrow> unit outcome \<times> world" where
  "send_signal w h sig =
     (case signal_error w (pid h) of
        Some msg \<Rightarrow> (Raises (OSError msg), w)
      | None \<Rightarrow> (Returns (), w\<lparr>trace := trace w @ [Signal (pid h) sig]\<rparr>))"

definition terminate :: "world \<Rightarrow> popen \<Rightarrow> unit outcome \<times> world" where
  "terminate w h = send_signal w h SIGTERM"

definition popen_kill :: "world \<Rightarrow> popen \<Rightarrow> unit outcome \<times> world" where
  "popen_kill w h = send_signal w h SIGKILL"

definition log_debug :: "world \<Rightarrow> string \<Rightarrow> world" where
  "log_debug w msg = w\<lparr>trace := trace w @ [LogDebug msg]\<rparr>"

text \<open>Sequencing: an exception or a call that never returns ends the method.\<close>

definition and_then ::
  "'a outcome \<times> world \<Rightarrow> ('a \<Rightarrow> world \<Rightarrow> 'b outcome \<times> world) \<Rightarrow> 'b outcome \<times> world" where
  "and_then m f =
     (case m of
        (Returns a, w) \<Rightarrow> f a w
      | (Raises e, w) \<Rightarrow> (Raises e, w)
      | (Blocks, w) \<Rightarrow> (Blocks, w))"

subsection \<open>The controller's methods\<close>

definition construct_start_command ::
  "controller \<Rightarrow> world \<Rightarrow> node_arguments \<Rightarrow> string list outcome \<times> world" where
  "construct_start_command c w node_args =
     (let host = host_name c;
          node_name = node_name node_args;
          http_port = http_port node_args;
          gossip_port = gossip_port node_args;
          cmd = get_executable_script w ''txnvalidator'';
          cmd = (if verbose c then cmd @ [''-vv''] else cmd);
          cmd = cmd @ [''--node'', node_name];
          cmd = cmd @ [''--listen'', host @ '':'' @ str_int http_port @ ''/TCP http''];
          cmd = cmd @ [''--listen'', host @ '':'' @ str_int gossip_port @ ''/UDP gossip''];
          cmd = foldl (\<lambda>cmd x. cmd @ [''--config'', x]) cmd (config_files node_args)
      in if genesis node_args then
           (let config_dir = ConfigDirectory (base_config c);
                config_dir = (case currency_home node_args of
                                Some home \<Rightarrow> os_path_join home ''etc''
                              | None \<Rightarrow> config_dir);
                config_file = node_name @ ''_bootstrap.json''
            in and_then
                 (if \<not> os_path_exists w config_dir then os_makedirs w config_dir
                  else (Returns (), w))
                 (\<lambda>_ w1. and_then
                    (write_file w1 (os_path_join config_dir config_file)
                       (json_dumps_indent4 (v0_cfg c)))
                    (\<lambda>_ w2. (Returns (cmd @ [''--config'', config_file]), w2))))
         else (Returns cmd, w))"

definition get_out_err :: "controller \<Rightarrow> node_arguments \<Rightarrow> stream \<times> stream" where
  "get_out_err c node_args = (Stdout, Stderr)"

text \<open>
  \<open>is_running\<close>: the handle in the registry is polled in place; the entry is popped
  when the method answers \<open>False\<close>.
\<close>

definition is_running :: "controller \<Rightarrow> world \<Rightarrow> string \<Rightarrow> bool \<times> controller \<times> world" where
  "is_running c w name =
     (case map_of (nodes c) name of
        None \<Rightarrow> (False, c\<lparr>nodes := AList.delete name (nodes c)\<rparr>, w)
      | Some handle \<Rightarrow>
          (let (handle', w') = poll w handle;
               c' = c\<lparr>nodes := AList.update name handle' (nodes c)\<rparr>
           in if returncode handle' = None then (True, c', w')
              else (False, c'\<lparr>nodes := AList.delete name (nodes c')\<rparr>, w')))"

definition build_env :: "world \<Rightarrow> node_arguments \<Rightarrow> (string \<times> string) list" where
  "build_env w node_args =
     (let env = environ w;
          env = AList.update ''PYTHONPATH'' (str_join os_pathsep (sys_path w)) env
      in case currency_home node_args of
           None \<Rightarrow> env
         | Some home \<Rightarrow> AList.update ''CURRENCYHOME'' home env)"

definition create_genesis_block ::
  "controller \<Rightarrow> world \<Rightarrow> node_arguments \<Rightarrow> unit outcome \<times> controller \<times> world" where
  "create_genesis_block c w node_args =
     (case is_running c w (node_name node_args) of
        (True, c1, w1) \<Rightarrow> (Returns (), c1, w1)
      | (False, c1, w1) \<Rightarrow>
          (let cmd = get_executable_script w1 ''sawtooth'';
               cmd = cmd @ [''keygen'', node_name node_args];
               key_dir = KeyDirectory (base_config c1);
               key_dir = (case currency_home node_args of
                            Some home \<Rightarrow> os_path_join home ''keys''
                          | None \<Rightarrow> key_dir);
               cmd = cmd @ [''--key-dir'', key_dir];
               cmd = (if \<not> verbose c1 then cmd @ [''--quiet''] else cmd)
           in case and_then (popen_spawn w1 cmd None (build_env w1 node_args))
                     (\<lambda>proc w2. and_then (popen_wait w2 proc)
                        (\<lambda>_ w3.
                           (let cmd = get_executable_script w3 ''sawtooth'';
                                cmd = cmd @ [''admin'', ''poet0-genesis''];
                                cmd = (if verbose c1 then cmd @ [''-vv''] else cmd);
                                cmd = cmd @ [''--node'', node_name node_args];
                                cmd = foldl (\<lambda>cmd x. cmd @ [''--config'', x]) cmd
                                        (config_files node_args)
                            in and_then (popen_spawn w3 cmd None (build_env w3 node_args))
                                 (\<lambda>proc w4. and_then (popen_wait w4 proc)
                                    (\<lambda>_ w5. (Returns (), w5)))))) of
                (r, w') \<Rightarrow> (r, c1, w')))"

definition start ::
  "controller \<Rightarrow> world \<Rightarrow> node_arguments \<Rightarrow> unit outcome \<times> controller \<times> world" where
  "start c w node_args =
     (let name = node_name node_args
      in case is_running c w name of
           (True, c1, w1) \<Rightarrow> (Returns (), c1, w1)
         | (False, c1, w1) \<Rightarrow>
             (case construct_start_command c1 w1 node_args of
                (Raises e, w2) \<Rightarrow> (Raises e, c1, w2)
              | (Blocks, w2) \<Rightarrow> (Blocks, c1, w2)
              | (Returns cmd, w2) \<Rightarrow>
                  (let (out, err) = get_out_err c1 node_args
                   in case popen_spawn w2 cmd (Some (out, err)) (build_env w2 node_args) of
                        (Raises e, w3) \<Rightarrow> (Raises e, c1, w3)
                      | (Blocks, w3) \<Rightarrow> (Blocks, c1, w3)
                      | (Returns handle, w3) \<Rightarrow>
                          (let (handle', w4) = poll w3 handle
                           in if returncode handle' = None
                              then (Returns (),
                                    c1\<lparr>nodes := AList.update name handle' (nodes c1)\<rparr>, w4)
                              else (Returns (), c1, w4)))))"

text \<open>
  \<open>stop\<close> and \<open>kill\<close>: the registry is read again after the guard, and a missing key
  there would be a \<open>KeyError\<close>, which \<open>except OSError\<close> does not catch.
\<close>

definition stop :: "controller \<Rightarrow> world \<Rightarrow> string \<Rightarrow> unit outcome \<times> controller \<times> world" where
  "stop c w name =
     (case is_running c w name of
        (False, c1, w1) \<Rightarrow> (Returns (), c1, w1)
      | (True, c1, w1) \<Rightarrow>
          (case map_of (nodes c1) name of
             None \<Rightarrow> (Raises (KeyError name), c1, w1)
           | Some handle \<Rightarrow>
               (case terminate w1 handle of
                  (Raises (OSError msg), w2) \<Rightarrow>
                    (Returns (), c1,
                     log_debug w2 (''SubprocessNodeController.stop failed: '' @ msg))
                | (r, w2) \<Rightarrow> (r, c1, w2))))"

definition kill :: "controller \<Rightarrow> world \<Rightarrow> string \<Rightarrow> unit outcome \<times> controller \<times> world" where
  "kill c w name =
     (case is_running c w name of
        (False, c1, w1) \<Rightarrow> (Returns (), c1, w1)
      | (True, c1, w1) \<Rightarrow>
          (case map_of (nodes c1) name of
             None \<Rightarrow> (Raises (KeyError name), c1, w1)
           | Some handle \<Rightarrow>
               (case popen_kill w1 handle of
                  (Raises (OSError msg), w2) \<Rightarrow>
                    (Returns (), c1,
                     log_debug w2 (''SubprocessNodeController.kill failed: '' @ msg))
                | (r, w2) \<Rightarrow> (r, c1, w2))))"

text \<open>
  \<open>get_node_names\<close>: \<open>self._nodes.keys()\<close> is a view of the registry, and the
  comprehension iterates the registry itself while \<open>is_running\<close> pops from it. The
  iterator remembers the size the dict had when the iteration began and compares it at
  every step, the last one included, before it looks for the next key; when the size
  has changed it raises \<open>RuntimeError\<close>. \<open>filter_running c w n xs\<close> is the rest of the
  iteration: \<open>n\<close> is the remembered size and \<open>xs\<close> the keys not yet visited. As long as
  no entry has been popped the registry is as it was, so these are the keys the
  iterator goes on to find.
\<close>

definition changed_size :: exn where
  "changed_size = RuntimeError ''dictionary changed size during iteration''"

fun filter_running ::
  "controller \<Rightarrow> world \<Rightarrow> nat \<Rightarrow> string list \<Rightarrow> string list outcome \<times> controller \<times> world" where
  "filter_running c w n [] =
     (if length (nodes c) \<noteq> n then (Raises changed_size, c, w) else (Returns [], c, w))"
| "filter_running c w n (x # xs) =
     (if length (nodes c) \<noteq> n then (Raises changed_size, c, w)
      else case is_running c w x of
             (r, c1, w1) \<Rightarrow>
               (case filter_running c1 w1 n xs of
                  (Returns ys, c2, w2) \<Rightarrow> (Returns (if r then x # ys else ys), c2, w2)
                | (Raises e, c2, w2) \<Rightarrow> (Raises e, c2, w2)
                | (Blocks, c2, w2) \<Rightarrow> (Blocks, c2, w2)))"


definition get_ip :: "controller \<Rightarrow> world \<Rightarrow> string \<Rightarrow> string \<times> controller \<times> world" where
  "get_ip c w name = (let hostname = host_name c in (hostname, c, w))"

subsection \<open>Vocabulary of the statements\<close>







definition is_spawn :: "event \<Rightarrow> bool" where
  "is_spawn e = (case e of Spawn p cmd env io \<Rightarrow> True | _ \<Rightarrow> False)"

text \<open>
  The argument vector of the start command, written out: the resolver's prefix, the
  verbosity flag, the node's identity, the two listen addresses, one \<open>--config\<close> per
  config file in their order, and for a genesis node the bootstrap file's name.
\<close>

definition start_argv :: "controller \<Rightarrow> world \<Rightarrow> node_arguments \<Rightarrow> string list" where
  "start_argv c w d =
     get_executable_script w ''txnvalidator''
     @ (if verbose c then [''-vv''] else [])
     @ [''--node'', node_name d,
        ''--listen'', host_name c @ '':'' @ str_int (http_port d) @ ''/TCP http'',
        ''--listen'', host_name c @ '':'' @ str_int (gossip_port d) @ ''/UDP gossip'']
     @ concat (map (\<lambda>x. [''--config'', x]) (config_files d))
     @ (if genesis d then [''--config'', node_name d @ ''_bootstrap.json''] else [])"

text \<open>
  The directory the bootstrap file goes to (derived from the home override if there is
  one, the configured default otherwise), the file's path, and the text
  \<open>{"InitialConnectivity": 0}\<close> printed with an indent of four.
\<close>

definition bootstrap_dir :: "controller \<Rightarrow> node_arguments \<Rightarrow> string" where
  "bootstrap_dir c d =
     (case currency_home d of
        Some home \<Rightarrow> os_path_join home ''etc''
      | None \<Rightarrow> ConfigDirectory (base_config c))"

definition bootstrap_path :: "controller \<Rightarrow> node_arguments \<Rightarrow> string" where
  "bootstrap_path c d = os_path_join (bootstrap_dir c d) (node_name d @ ''_bootstrap.json'')"

definition bootstrap_text :: string where
  "bootstrap_text =
     ''{'' @ [CHR 0x0A] @ ''    '' @ [CHR 0x22] @ ''InitialConnectivity'' @ [CHR 0x22] @ '': 0''
     @ [CHR 0x0A] @ ''}''"

text \<open>The two helper commands of the genesis bootstrap, written out.\<close>

definition keygen_argv :: "controller \<Rightarrow> world \<Rightarrow> node_arguments \<Rightarrow> string list" where
  "keygen_argv c w d =
     get_executable_script w ''sawtooth''
     @ [''keygen'', node_name d,
        ''--key-dir'',
        (case currency_home d of
           Some home \<Rightarrow> os_path_join home ''keys''
         | None \<Rightarrow> KeyDirectory (base_config c))]
     @ (if verbose c then [] else [''--quiet''])"

definition genesis_argv :: "controller \<Rightarrow> world \<Rightarrow> node_arguments \<Rightarrow> string list" where
  "genesis_argv c w d =
     get_executable_script w ''sawtooth''
     @ [''admin'', ''poet0-genesis'']
     @ (if verbose c then [''-vv''] else [])
     @ [''--node'', node_name d]
     @ concat (map (\<lambda>x. [''--config'', x]) (config_files d))"

text \<open>Two \<open>start\<close> calls in a row, the second in the world the first one left.\<close>

definition start_twice ::
  "controller \<Rightarrow> world \<Rightarrow> node_arguments \<Rightarrow> unit outcome \<times> controller \<times> world" where
  "start_twice c w d = (case start c w d of (r, c1, w1) \<Rightarrow> start c1 w1 d)"

text \<open>A configuration, a controller, a world and a node to evaluate the methods on.\<close>

definition example_config :: validator_config where
  "example_config = \<lparr>ConfigDirectory = ''/etc/sawtooth'', KeyDirectory = ''/etc/sawtooth/keys''\<rparr>"

definition example_controller :: controller where
  "example_controller = init ''h'' False example_config"

definition tracking_controller :: controller where
  "tracking_controller = example_controller\<lparr>nodes := [(''alpha'', \<lparr>pid = 7, returncode = None\<rparr>)]\<rparr>"

definition example_world :: world where
  "example_world =
     \<lparr>environ = [(''HOME'', ''/root'')], sys_path = [''/project/core''],
      get_executable_script = (\<lambda>name. [''/project/bin/'' @ name]),
      fs = Map.empty, makedirs_error = (\<lambda>p. None), open_error = (\<lambda>p. None),
      spawn_error = (\<lambda>cmd. None), signal_error = (\<lambda>p. None),
      exit_status = (\<lambda>p. None), wait_status = (\<lambda>p. Some 0),
      next_pid = 100, trace = []\<rparr>"

definition alpha :: node_arguments where
  "alpha = \<lparr>node_name = ''alpha'', http_port = 8000, gossip_port = 9000,
            config_files = [''base.json''], genesis = True, currency_home = None\<rparr>"

text \<open>The example world once the bootstrap file of \<open>alpha\<close> has been written.\<close>

definition bootstrapped_world :: world where
  "bootstrapped_world =
     example_world
       \<lparr>fs := [''/etc/sawtooth'' \<mapsto> Dir,
               ''/etc/sawtooth/alpha_bootstrap.json'' \<mapsto> File bootstrap_text],
        trace := [MakeDirs ''/etc/sawtooth'',
                  WriteFile ''/etc/sawtooth/alpha_bootstrap.json'' bootstrap_text]\<rparr>"

text \<open>A world in which every child has exited by the time it is polled.\<close>

definition dying_world :: world where
  "dying_world = example_world\<lparr>exit_status := (\<lambda>p. Some 1)\<rparr>"

text \<open>A world in which no program can be started.\<close>

definition barren_world :: world where
  "barren_world = example_world\<lparr>spawn_error := (\<lambda>cmd. Some ''[Errno 2] No such file or directory'')\<rparr>"

text \<open>A genesis node whose name begins with a separator.\<close>

definition rooted :: node_arguments where
  "rooted = \<lparr>node_name = ''/tmp/evil'', http_port = 8000, gossip_port = 9000,
             config_files = [], genesis = True, currency_home = None\<rparr>"

definition beta :: node_arguments where
  "beta = \<lparr>node_name = ''beta'', http_port = 8001, gossip_port = 9001,
           config_files = [], genesis = False, currency_home = Some ''/home/beta''\<rparr>"

section \<open>The liveness check\<close>

lemma poll_alive_iff:
  "returncode (fst (poll w h)) = None \<longleftrightarrow> returncode h = None \<and> exit_status w (pid h) = None"
  by (auto simp: poll_def split: option.splits)

lemma poll_alive:
  "returncode h = None \<Longrightarrow> exit_status w (pid h) = None \<Longrightarrow>
   poll w h = (h, w\<lparr>trace := trace w @ [Poll (pid h)]\<rparr>)"
  by (simp add: poll_def)

lemma is_running_untracked:
  assumes "map_of (nodes c) name = None"
  shows "is_running c w name = (False, c, w)"
proof -
  from assms have "name \<notin> fst ` set (nodes c)" by (simp add: map_of_eq_None_iff)
  then have "AList.delete name (nodes c) = nodes c" by simp
  with assms show ?thesis by (simp add: is_running_def)
qed

lemma is_running_alive:
  "map_of (nodes c) name = Some h \<Longrightarrow> returncode h = None \<Longrightarrow> exit_status w (pid h) = None \<Longrightarrow>
   is_running c w name = (True, c, w\<lparr>trace := trace w @ [Poll (pid h)]\<rparr>)"
  by (simp add: is_running_def poll_alive update_triv)

lemma is_running_dead:
  "map_of (nodes c) name = Some h \<Longrightarrow> returncode (fst (poll w h)) \<noteq> None \<Longrightarrow>
   is_running c w name = (False, c\<lparr>nodes := AList.delete name (nodes c)\<rparr>, snd (poll w h))"
  by (cases "poll w h") (auto simp: is_running_def delete_update_same Let_def)

lemma is_running_True_D:
  assumes "is_running c w name = (True, c1, w1)"
  shows "\<exists>h. map_of (nodes c) name = Some h \<and> returncode h = None \<and> exit_status w (pid h) = None
            \<and> c1 = c \<and> w1 = w\<lparr>trace := trace w @ [Poll (pid h)]\<rparr>"
proof (cases "map_of (nodes c) name")
  case None
  with assms show ?thesis by (simp add: is_running_untracked)
next
  case (Some h)
  show ?thesis
  proof (cases "returncode (fst (poll w h)) = None")
    case True
    then have "returncode h = None" "exit_status w (pid h) = None"
      by (simp_all add: poll_alive_iff)
    with Some assms show ?thesis by (simp add: is_running_alive)
  next
    case False
    with Some assms show ?thesis by (simp add: is_running_dead)
  qed
qed

lemma is_running_False_D:
  assumes "is_running c w name = (False, c1, w1)"
  shows "c1 = c\<lparr>nodes := AList.delete name (nodes c)\<rparr> \<and> map_of (nodes c1) name = None"
proof (cases "map_of (nodes c) name")
  case None
  then have "name \<notin> fst ` set (nodes c)" by (simp add: map_of_eq_None_iff)
  then have "AList.delete name (nodes c) = nodes c" by simp
  with None assms show ?thesis by (simp add: is_running_untracked)
next
  case (Some h)
  show ?thesis
  proof (cases "returncode (fst (poll w h)) = None")
    case True
    then have "returncode h = None" "exit_status w (pid h) = None"
      by (simp_all add: poll_alive_iff)
    with Some assms show ?thesis by (simp add: is_running_alive)
  next
    case False
    with Some assms show ?thesis by (auto simp add: is_running_dead delete_conv')
  qed
qed



lemma filter_running_step:
  assumes "length (nodes c) = n" and "is_running c w x = (r, c1, w1)"
    and "filter_running c1 w1 n xs = (q, c2, w2)"
  shows "filter_running c w n (x # xs) =
           (case q of
              Returns ys \<Rightarrow> Returns (if r then x # ys else ys)
            | Raises e \<Rightarrow> Raises e
            | Blocks \<Rightarrow> Blocks, c2, w2)"
  using assms by (simp split: outcome.splits)





lemma poll_world:
  "snd (poll w h) = w \<or> snd (poll w h) = w\<lparr>trace := trace w @ [Poll (pid h)]\<rparr>"
  by (simp add: poll_def split: option.splits)

lemma is_running_world:
  "\<exists>ps. snd (snd (is_running c w x)) = w\<lparr>trace := trace w @ map Poll ps\<rparr>"
proof (cases "map_of (nodes c) x")
  case None
  then have "snd (snd (is_running c w x)) = w\<lparr>trace := trace w @ map Poll []\<rparr>"
    by (simp add: is_running_untracked)
  then show ?thesis by (rule exI)
next
  case (Some h)
  have "snd (snd (is_running c w x)) = snd (poll w h)"
    using Some by (cases "poll w h") (simp add: is_running_def Let_def)
  with poll_world [of w h]
  have "snd (snd (is_running c w x)) = w\<lparr>trace := trace w @ map Poll []\<rparr>
      \<or> snd (snd (is_running c w x)) = w\<lparr>trace := trace w @ map Poll [pid h]\<rparr>"
    by auto
  then show ?thesis by (elim disjE) (rule exI, assumption)+
qed





text \<open>
  When every key still to be visited has a handle whose child is running, the
  iteration returns them all and leaves the registry as it was.
\<close>

lemma filter_running_all_alive:
  assumes "length (nodes c) = n"
    and "list_all (\<lambda>x. \<exists>h. map_of (nodes c) x = Some h \<and> returncode h = None
                              \<and> exit_status w (pid h) = None) xs"
  shows "fst (filter_running c w n xs) = Returns xs \<and> fst (snd (filter_running c w n xs)) = c"
  using assms(2)
proof (induction xs arbitrary: w)
  case Nil
  with assms(1) show ?case by simp
next
  case (Cons x xs)
  from Cons.prems obtain h0 where h: "map_of (nodes c) x = Some h0" "returncode h0 = None"
    "exit_status w (pid h0) = None" by auto
  define w1 where "w1 = w\<lparr>trace := trace w @ [Poll (pid h0)]\<rparr>"
  from is_running_alive [OF h] have r: "is_running c w x = (True, c, w1)"
    by (simp add: w1_def)
  have "exit_status w1 = exit_status w" by (simp add: w1_def)
  with Cons.prems
  have "list_all (\<lambda>x. \<exists>h. map_of (nodes c) x = Some h \<and> returncode h = None
            \<and> exit_status w1 (pid h) = None) xs"
    by simp
  from Cons.IH [OF this]
  have rest: "fst (filter_running c w1 n xs) = Returns xs"
    "fst (snd (filter_running c w1 n xs)) = c" by simp_all
  obtain q c2 w2 where f: "filter_running c w1 n xs = (q, c2, w2)"
    by (cases "filter_running c w1 n xs")
  with rest have "q = Returns xs" "c2 = c" by simp_all
  with filter_running_step [OF assms(1) r f] show ?case by simp
qed




lemma is_running_fst_True_D:
  assumes "fst (is_running c w name)"
  shows "\<exists>h. map_of (nodes c) name = Some h \<and> returncode h = None \<and> exit_status w (pid h) = None
            \<and> is_running c w name = (True, c, w\<lparr>trace := trace w @ [Poll (pid h)]\<rparr>)"
proof -
  obtain r c1 w1 where run: "is_running c w name = (r, c1, w1)"
    by (cases "is_running c w name")
  with assms have t: "is_running c w name = (True, c1, w1)" by simp
  from is_running_True_D [OF t] t show ?thesis by auto
qed

section \<open>Stop and kill\<close>

lemma stop_not_running:
  "\<not> fst (is_running c w name) \<Longrightarrow> stop c w name = (Returns (), snd (is_running c w name))"
  by (cases "is_running c w name") (simp add: stop_def)

lemma kill_not_running:
  "\<not> fst (is_running c w name) \<Longrightarrow> kill c w name = (Returns (), snd (is_running c w name))"
  by (cases "is_running c w name") (simp add: kill_def)

lemma stop_running:
  assumes "map_of (nodes c) name = Some h"
    and "is_running c w name = (True, c, w1)"
  shows "stop c w name =
           (Returns (), c,
            case signal_error w1 (pid h) of
              None \<Rightarrow> w1\<lparr>trace := trace w1 @ [Signal (pid h) SIGTERM]\<rparr>
            | Some msg \<Rightarrow>
                w1\<lparr>trace := trace w1 @ [LogDebug (''SubprocessNodeController.stop failed: '' @ msg)]\<rparr>)"
  using assms
  by (simp add: stop_def terminate_def send_signal_def log_debug_def split: option.splits)

lemma kill_running:
  assumes "map_of (nodes c) name = Some h"
    and "is_running c w name = (True, c, w1)"
  shows "kill c w name =
           (Returns (), c,
            case signal_error w1 (pid h) of
              None \<Rightarrow> w1\<lparr>trace := trace w1 @ [Signal (pid h) SIGKILL]\<rparr>
            | Some msg \<Rightarrow>
                w1\<lparr>trace := trace w1 @ [LogDebug (''SubprocessNodeController.kill failed: '' @ msg)]\<rparr>)"
  using assms
  by (simp add: kill_def popen_kill_def send_signal_def log_debug_def split: option.splits)

lemma stop_returns: "fst (stop c w name) = Returns ()"
proof (cases "fst (is_running c w name)")
  case False
  then show ?thesis by (simp add: stop_not_running)
next
  case True
  from is_running_fst_True_D [OF True] obtain h where
    "map_of (nodes c) name = Some h"
    "is_running c w name = (True, c, w\<lparr>trace := trace w @ [Poll (pid h)]\<rparr>)" by blast
  from stop_running [OF this] show ?thesis by simp
qed

lemma kill_returns: "fst (kill c w name) = Returns ()"
proof (cases "fst (is_running c w name)")
  case False
  then show ?thesis by (simp add: kill_not_running)
next
  case True
  from is_running_fst_True_D [OF True] obtain h where
    "map_of (nodes c) name = Some h"
    "is_running c w name = (True, c, w\<lparr>trace := trace w @ [Poll (pid h)]\<rparr>)" by blast
  from kill_running [OF this] show ?thesis by simp
qed

lemma stop_controller: "fst (snd (stop c w name)) = fst (snd (is_running c w name))"
proof (cases "fst (is_running c w name)")
  case False
  then show ?thesis by (simp add: stop_not_running)
next
  case True
  from is_running_fst_True_D [OF True] obtain h where
    h: "map_of (nodes c) name = Some h"
    "is_running c w name = (True, c, w\<lparr>trace := trace w @ [Poll (pid h)]\<rparr>)" by blast
  from stop_running [OF h] h(2) show ?thesis by simp
qed

lemma kill_controller: "fst (snd (kill c w name)) = fst (snd (is_running c w name))"
proof (cases "fst (is_running c w name)")
  case False
  then show ?thesis by (simp add: kill_not_running)
next
  case True
  from is_running_fst_True_D [OF True] obtain h where
    h: "map_of (nodes c) name = Some h"
    "is_running c w name = (True, c, w\<lparr>trace := trace w @ [Poll (pid h)]\<rparr>)" by blast
  from kill_running [OF h] h(2) show ?thesis by simp
qed

text \<open>
  C3. When \<open>is_running\<close> answers \<open>False\<close>, \<open>stop\<close> and \<open>kill\<close> return normally and do
  nothing beyond what \<open>is_running\<close> did, which is at most a poll: no signal is sent and
  nothing is logged. When it answers \<open>True\<close>, the handle receives the signal, or, if
  the operating system raises an \<open>OSError\<close>, the error is logged at debug level and not
  raised. In every case the call returns normally and the controller it leaves is the
  one \<open>is_running\<close> left: neither method removes a registry entry itself.
\<close>

theorem stop_kill_guarded:
  "(\<not> fst (is_running c w name) \<longrightarrow>
      stop c w name = (Returns (), snd (is_running c w name))
      \<and> kill c w name = (Returns (), snd (is_running c w name))
      \<and> (\<exists>ps. snd (snd (is_running c w name)) = w\<lparr>trace := trace w @ map Poll ps\<rparr>))
   \<and> (fst (is_running c w name) \<longrightarrow>
        (\<exists>h. map_of (nodes c) name = Some h
           \<and> stop c w name =
               (Returns (), c,
                w\<lparr>trace := trace w @
                   [Poll (pid h),
                    case signal_error w (pid h) of
                      None \<Rightarrow> Signal (pid h) SIGTERM
                    | Some msg \<Rightarrow> LogDebug (''SubprocessNodeController.stop failed: '' @ msg)]\<rparr>)
           \<and> kill c w name =
               (Returns (), c,
                w\<lparr>trace := trace w @
                   [Poll (pid h),
                    case signal_error w (pid h) of
                      None \<Rightarrow> Signal (pid h) SIGKILL
                    | Some msg \<Rightarrow> LogDebug (''SubprocessNodeController.kill failed: '' @ msg)]\<rparr>)))
   \<and> fst (stop c w name) = Returns () \<and> fst (kill c w name) = Returns ()
   \<and> fst (snd (stop c w name)) = fst (snd (is_running c w name))
   \<and> fst (snd (kill c w name)) = fst (snd (is_running c w name))"
proof -
  have a: "\<not> fst (is_running c w name) \<longrightarrow>
      stop c w name = (Returns (), snd (is_running c w name))
      \<and> kill c w name = (Returns (), snd (is_running c w name))
      \<and> (\<exists>ps. snd (snd (is_running c w name)) = w\<lparr>trace := trace w @ map Poll ps\<rparr>)"
    using is_running_world [of c w name] by (simp add: stop_not_running kill_not_running)
  have b: "fst (is_running c w name) \<longrightarrow>
        (\<exists>h. map_of (nodes c) name = Some h
           \<and> stop c w name =
               (Returns (), c,
                w\<lparr>trace := trace w @
                   [Poll (pid h),
                    case signal_error w (pid h) of
                      None \<Rightarrow> Signal (pid h) SIGTERM
                    | Some msg \<Rightarrow> LogDebug (''SubprocessNodeController.stop failed: '' @ msg)]\<rparr>)
           \<and> kill c w name =
               (Returns (), c,
                w\<lparr>trace := trace w @
                   [Poll (pid h),
                    case signal_error w (pid h) of
                      None \<Rightarrow> Signal (pid h) SIGKILL
                    | Some msg \<Rightarrow> LogDebug (''SubprocessNodeController.kill failed: '' @ msg)]\<rparr>))"
  proof
    assume "fst (is_running c w name)"
    from is_running_fst_True_D [OF this] obtain h where
      h: "map_of (nodes c) name = Some h"
      "is_running c w name = (True, c, w\<lparr>trace := trace w @ [Poll (pid h)]\<rparr>)" by blast
    have "stop c w name =
               (Returns (), c,
                w\<lparr>trace := trace w @
                   [Poll (pid h),
                    case signal_error w (pid h) of
                      None \<Rightarrow> Signal (pid h) SIGTERM
                    | Some msg \<Rightarrow> LogDebug (''SubprocessNodeController.stop failed: '' @ msg)]\<rparr>)"
      using stop_running [OF h] by (simp split: option.splits)
    moreover have "kill c w name =
               (Returns (), c,
                w\<lparr>trace := trace w @
                   [Poll (pid h),
                    case signal_error w (pid h) of
                      None \<Rightarrow> Signal (pid h) SIGKILL
                    | Some msg \<Rightarrow> LogDebug (''SubprocessNodeController.kill failed: '' @ msg)]\<rparr>)"
      using kill_running [OF h] by (simp split: option.splits)
    ultimately show "\<exists>h. map_of (nodes c) name = Some h
           \<and> stop c w name =
               (Returns (), c,
                w\<lparr>trace := trace w @
                   [Poll (pid h),
                    case signal_error w (pid h) of
                      None \<Rightarrow> Signal (pid h) SIGTERM
                    | Some msg \<Rightarrow> LogDebug (''SubprocessNodeController.stop failed: '' @ msg)]\<rparr>)
           \<and> kill c w name =
               (Returns (), c,
                w\<lparr>trace := trace w @
                   [Poll (pid h),
                    case signal_error w (pid h) of
                      None \<Rightarrow> Signal (pid h) SIGKILL
                    | Some msg \<Rightarrow> LogDebug (''SubprocessNodeController.kill failed: '' @ msg)]\<rparr>)"
      using h(1) by blast
  qed
  from a b stop_returns [of c w name] kill_returns [of c w name]
    stop_controller [of c w name] kill_controller [of c w name]
  show ?thesis by (intro conjI)
qed

theorem stop_kill_guarded_witness:
  "\<not> fst (is_running example_controller example_world ''alpha'')
   \<and> stop example_controller example_world ''alpha'' = (Returns (), example_controller, example_world)
   \<and> fst (is_running tracking_controller example_world ''alpha'')
   \<and> trace (snd (snd (stop tracking_controller example_world ''alpha''))) = [Poll 7, Signal 7 SIGTERM]
   \<and> nodes (fst (snd (stop tracking_controller example_world ''alpha''))) =
       [(''alpha'', \<lparr>pid = 7, returncode = None\<rparr>)]
   \<and> fst (is_running tracking_controller
         (example_world\<lparr>signal_error := (\<lambda>p. Some ''[Errno 3] No such process'')\<rparr>) ''alpha'')
   \<and> kill tracking_controller
         (example_world\<lparr>signal_error := (\<lambda>p. Some ''[Errno 3] No such process'')\<rparr>) ''alpha''
       = (Returns (), tracking_controller,
          example_world
            \<lparr>signal_error := (\<lambda>p. Some ''[Errno 3] No such process''),
             trace := [Poll 7,
               LogDebug ''SubprocessNodeController.kill failed: [Errno 3] No such process'']\<rparr>)"
  using stop_kill_guarded [of example_controller example_world "''alpha''"]
    stop_kill_guarded [of tracking_controller example_world "''alpha''"]
    stop_kill_guarded [of tracking_controller
      "example_world\<lparr>signal_error := (\<lambda>p. Some ''[Errno 3] No such process'')\<rparr>" "''alpha''"]
  by (simp add: is_running_def poll_def
      tracking_controller_def example_controller_def init_def example_world_def Let_def)

text \<open>
  C9. When \<open>is_running\<close> answers \<open>True\<close>, the registry it leaves has an entry for the
  name whose handle has no return code and whose child the operating system reports as
  running. So the registry lookup that follows the guard in \<open>stop\<close> and \<open>kill\<close> cannot
  raise \<open>KeyError\<close>.
\<close>

theorem running_node_is_registered:
  assumes "fst (is_running c w name)"
  shows "(\<exists>h. map_of (nodes (fst (snd (is_running c w name)))) name = Some h
            \<and> returncode h = None \<and> exit_status w (pid h) = None)
         \<and> (\<forall>k. fst (stop c w name) \<noteq> Raises (KeyError k))
         \<and> (\<forall>k. fst (kill c w name) \<noteq> Raises (KeyError k))"
proof -
  from is_running_fst_True_D [OF assms] obtain h where
    "map_of (nodes c) name = Some h" "returncode h = None" "exit_status w (pid h) = None"
    "is_running c w name = (True, c, w\<lparr>trace := trace w @ [Poll (pid h)]\<rparr>)" by blast
  then have "\<exists>h. map_of (nodes (fst (snd (is_running c w name)))) name = Some h
            \<and> returncode h = None \<and> exit_status w (pid h) = None" by simp
  then show ?thesis by (simp add: stop_returns kill_returns)
qed

theorem running_node_is_registered_witness:
  "fst (is_running tracking_controller example_world ''alpha'')
   \<and> map_of (nodes (fst (snd (is_running tracking_controller example_world ''alpha'')))) ''alpha''
       = Some \<lparr>pid = 7, returncode = None\<rparr>
   \<and> fst (kill tracking_controller example_world ''alpha'') = Returns ()"
  using running_node_is_registered [of tracking_controller example_world "''alpha''"]
  by (simp add: is_running_def poll_def kill_def popen_kill_def send_signal_def
      tracking_controller_def example_controller_def init_def example_world_def Let_def)

section \<open>Command construction\<close>

lemma foldl_config:
  "foldl (\<lambda>cmd x. cmd @ [''--config'', x]) cmd xs = cmd @ concat (map (\<lambda>x. [''--config'', x]) xs)"
  by (induction xs arbitrary: cmd) simp_all

lemma construct_without_genesis:
  "\<not> genesis d \<Longrightarrow> construct_start_command c w d = (Returns (start_argv c w d), w)"
  by (simp add: construct_start_command_def start_argv_def foldl_config Let_def)

lemma construct_with_genesis:
  "genesis d \<Longrightarrow>
   construct_start_command c w d =
     and_then
       (if fs w (bootstrap_dir c d) = None then os_makedirs w (bootstrap_dir c d)
        else (Returns (), w))
       (\<lambda>_ w1. and_then
          (write_file w1 (bootstrap_path c d) (json_dumps_indent4 (v0_cfg c)))
          (\<lambda>_ w2. (Returns (start_argv c w d), w2)))"
  by (simp add: construct_start_command_def start_argv_def foldl_config Let_def
      bootstrap_dir_def bootstrap_path_def os_path_exists_def split: option.splits)

lemma json_dumps_v0_cfg:
  "json_dumps_indent4 [(''InitialConnectivity'', 0)] = bootstrap_text"
  by (simp add: json_dumps_indent4_def json_member_def str_int_def str_nat.simps bootstrap_text_def)

lemma construct_genesis_cases:
  assumes "genesis d"
  shows "construct_start_command c w d =
    (let dir = bootstrap_dir c d; path = bootstrap_path c d; text = json_dumps_indent4 (v0_cfg c);
         w1 = (if fs w dir = None
               then w\<lparr>fs := (fs w)(dir \<mapsto> Dir), trace := trace w @ [MakeDirs dir]\<rparr> else w)
     in if fs w dir = None \<and> makedirs_error w dir \<noteq> None
        then (Raises (OSError (the (makedirs_error w dir))), w)
        else if fs w1 path = Some Dir
        then (Raises (IOError (''[Errno 21] Is a directory: '' @ path)), w1)
        else if open_error w path \<noteq> None
        then (Raises (IOError (the (open_error w path))), w1)
        else (Returns (start_argv c w d),
              w1\<lparr>fs := (fs w1)(path \<mapsto> File text), trace := trace w1 @ [WriteFile path text]\<rparr>))"
  unfolding construct_with_genesis [OF assms]
  by (simp add: and_then_def os_makedirs_def write_file_def Let_def split: option.splits)

lemma start_argv_world:
  "get_executable_script w' = get_executable_script w \<Longrightarrow> start_argv c w' d = start_argv c w d"
  by (simp add: start_argv_def)

lemma construct_genesis_success:
  assumes "genesis d" and "construct_start_command c w d = (Returns cmd, w')"
  shows "cmd = start_argv c w d"
    and "fs w' (bootstrap_path c d) = Some (File (json_dumps_indent4 (v0_cfg c)))"
    and "trace w' = trace w
           @ (if fs w (bootstrap_dir c d) = None then [MakeDirs (bootstrap_dir c d)] else [])
           @ [WriteFile (bootstrap_path c d) (json_dumps_indent4 (v0_cfg c))]"
    and "fs w' (bootstrap_dir c d) \<noteq> None"
    and "open_error w' = open_error w"
    and "get_executable_script w' = get_executable_script w"
    and "open_error w (bootstrap_path c d) = None"
proof -
  define w1 where "w1 = (if fs w (bootstrap_dir c d) = None
               then w\<lparr>fs := (fs w)(bootstrap_dir c d \<mapsto> Dir),
                      trace := trace w @ [MakeDirs (bootstrap_dir c d)]\<rparr> else w)"
  have eq: "cmd = start_argv c w d \<and> open_error w (bootstrap_path c d) = None \<and>
        w' = w1\<lparr>fs := (fs w1)(bootstrap_path c d \<mapsto> File (json_dumps_indent4 (v0_cfg c))),
                trace := trace w1 @ [WriteFile (bootstrap_path c d) (json_dumps_indent4 (v0_cfg c))]\<rparr>"
    using assms(2) unfolding construct_genesis_cases [OF assms(1)] Let_def w1_def [symmetric]
    by (auto split: if_splits)
  from eq show "cmd = start_argv c w d" by simp
  from eq show "open_error w (bootstrap_path c d) = None" by simp
  from eq show "fs w' (bootstrap_path c d) = Some (File (json_dumps_indent4 (v0_cfg c)))"
    by simp
  from eq show "trace w' = trace w
           @ (if fs w (bootstrap_dir c d) = None then [MakeDirs (bootstrap_dir c d)] else [])
           @ [WriteFile (bootstrap_path c d) (json_dumps_indent4 (v0_cfg c))]"
    by (simp add: w1_def)
  have "fs w1 (bootstrap_dir c d) \<noteq> None" by (simp add: w1_def)
  with eq show "fs w' (bootstrap_dir c d) \<noteq> None" by simp
  from eq show "open_error w' = open_error w" by (simp add: w1_def)
  from eq show "get_executable_script w' = get_executable_script w" by (simp add: w1_def)
qed

lemma construct_genesis_dir_exists:
  assumes "genesis d" and "fs w (bootstrap_dir c d) \<noteq> None"
    and "fs w (bootstrap_path c d) \<noteq> Some Dir" and "open_error w (bootstrap_path c d) = None"
  shows "construct_start_command c w d =
           (Returns (start_argv c w d),
            w\<lparr>fs := (fs w)(bootstrap_path c d \<mapsto> File (json_dumps_indent4 (v0_cfg c))),
              trace := trace w @ [WriteFile (bootstrap_path c d) (json_dumps_indent4 (v0_cfg c))]\<rparr>)"
proof -
  from assms(2) obtain y where "fs w (bootstrap_dir c d) = Some y" by blast
  then show ?thesis
    unfolding construct_genesis_cases [OF assms(1)] Let_def using assms(3,4) by simp
qed

lemma construct_genesis_dir_missing:
  assumes "genesis d" and "fs w (bootstrap_dir c d) = None"
    and "makedirs_error w (bootstrap_dir c d) = None"
    and "bootstrap_path c d \<noteq> bootstrap_dir c d"
    and "fs w (bootstrap_path c d) \<noteq> Some Dir" and "open_error w (bootstrap_path c d) = None"
  shows "construct_start_command c w d =
           (Returns (start_argv c w d),
            w\<lparr>fs := (fs w)(bootstrap_dir c d \<mapsto> Dir,
                           bootstrap_path c d \<mapsto> File (json_dumps_indent4 (v0_cfg c))),
              trace := trace w @ [MakeDirs (bootstrap_dir c d),
                        WriteFile (bootstrap_path c d) (json_dumps_indent4 (v0_cfg c))]\<rparr>)"
  unfolding construct_genesis_cases [OF assms(1)] Let_def using assms(2-) by simp

lemma construct_genesis_again:
  assumes "genesis d" and "construct_start_command c w d = (Returns cmd, w')"
  shows "construct_start_command c w' d =
           (Returns cmd,
            w'\<lparr>trace := trace w' @ [WriteFile (bootstrap_path c d) (json_dumps_indent4 (v0_cfg c))]\<rparr>)"
proof -
  note s = construct_genesis_success [OF assms]
  have "fs w' (bootstrap_path c d) \<noteq> Some Dir" using s(2) by simp
  moreover have "open_error w' (bootstrap_path c d) = None" using s(5,7) by simp
  ultimately have "construct_start_command c w' d =
           (Returns (start_argv c w' d),
            w'\<lparr>fs := (fs w')(bootstrap_path c d \<mapsto> File (json_dumps_indent4 (v0_cfg c))),
              trace := trace w' @ [WriteFile (bootstrap_path c d) (json_dumps_indent4 (v0_cfg c))]\<rparr>)"
    by (rule construct_genesis_dir_exists [OF assms(1) s(4)])
  moreover have "(fs w')(bootstrap_path c d \<mapsto> File (json_dumps_indent4 (v0_cfg c))) = fs w'"
    using s(2) by (simp add: map_upd_triv)
  moreover have "start_argv c w' d = cmd" using start_argv_world [OF s(6), of c d] s(1) by simp
  ultimately show ?thesis by simp
qed

text \<open>
  The path is the directory followed by the file's name, with a separator between them
  unless the directory ends in one, for every node name that does not begin with a
  separator; \<open>os.path.join\<close> drops the directory for a name that does.
\<close>

lemma os_path_join_relative:
  assumes "name = [] \<or> hd name \<noteq> CHR ''/''"
  shows "os_path_join dir (name @ ''_bootstrap.json'') =
           dir @ (if dir = [] \<or> last dir = CHR ''/'' then [] else ''/'')
           @ name @ ''_bootstrap.json''"
proof (cases name)
  case Nil
  then show ?thesis by (simp add: os_path_join_def)
next
  case (Cons x xs)
  with assms have "x \<noteq> CHR ''/''" by simp
  with Cons show ?thesis by (simp add: os_path_join_def)
qed

lemma bootstrap_path_relative:
  assumes "node_name d = [] \<or> hd (node_name d) \<noteq> CHR ''/''"
  shows "bootstrap_path c d =
           bootstrap_dir c d
           @ (if bootstrap_dir c d = [] \<or> last (bootstrap_dir c d) = CHR ''/'' then [] else ''/'')
           @ node_name d @ ''_bootstrap.json''"
  unfolding bootstrap_path_def using assms by (rule os_path_join_relative)

lemma plain_name_relative:
  assumes "CHR ''/'' \<notin> set name"
  shows "name = [] \<or> hd name \<noteq> CHR ''/''"
  using assms by (cases name) auto

text \<open>
  C5, as the code has it. For a genesis node, command construction takes as config
  directory the home override's \<open>etc\<close> directory if there is an override and the
  configured default otherwise. When it returns, the path \<open>os.path.join\<close> gives for
  that directory and the name \<open>node_name_bootstrap.json\<close> holds exactly
  \<open>{"InitialConnectivity": 0}\<close> printed with an indent of four;
  the directory was created if and only if nothing was at its path; and the same call
  made again, in the world the first left, returns the same command and writes the same
  bytes. A directory that exists is never the reason of a failure: if there is
  something at the directory's path and the file can be written, the call returns
  without creating anything. If the directory is missing and can be created, it is
  created first. The path is the directory, a separator and the file's name whenever
  the node's name does not begin with a separator, and the file is then an entry of the
  directory itself whenever the node's name contains no separator at all.
\<close>

theorem bootstrap_file_written:
  assumes "genesis d" and "v0_cfg c = [(''InitialConnectivity'', 0)]"
  shows
    "(construct_start_command c w d = (Returns cmd, w') \<longrightarrow>
        fs w' (bootstrap_path c d) = Some (File bootstrap_text)
        \<and> trace w' = trace w
             @ (if fs w (bootstrap_dir c d) = None then [MakeDirs (bootstrap_dir c d)] else [])
             @ [WriteFile (bootstrap_path c d) bootstrap_text]
        \<and> construct_start_command c w' d =
             (Returns cmd, w'\<lparr>trace := trace w' @ [WriteFile (bootstrap_path c d) bootstrap_text]\<rparr>))
     \<and> (fs w (bootstrap_dir c d) \<noteq> None \<and> fs w (bootstrap_path c d) \<noteq> Some Dir
          \<and> open_error w (bootstrap_path c d) = None \<longrightarrow>
        construct_start_command c w d =
          (Returns (start_argv c w d),
           w\<lparr>fs := (fs w)(bootstrap_path c d \<mapsto> File bootstrap_text),
             trace := trace w @ [WriteFile (bootstrap_path c d) bootstrap_text]\<rparr>))
     \<and> (fs w (bootstrap_dir c d) = None \<and> makedirs_error w (bootstrap_dir c d) = None
          \<and> bootstrap_path c d \<noteq> bootstrap_dir c d \<and> fs w (bootstrap_path c d) \<noteq> Some Dir
          \<and> open_error w (bootstrap_path c d) = None \<longrightarrow>
        construct_start_command c w d =
          (Returns (start_argv c w d),
           w\<lparr>fs := (fs w)(bootstrap_dir c d \<mapsto> Dir, bootstrap_path c d \<mapsto> File bootstrap_text),
             trace := trace w
               @ [MakeDirs (bootstrap_dir c d), WriteFile (bootstrap_path c d) bootstrap_text]\<rparr>))
     \<and> (node_name d = [] \<or> hd (node_name d) \<noteq> CHR ''/'' \<longrightarrow>
          bootstrap_path c d =
            bootstrap_dir c d
            @ (if bootstrap_dir c d = [] \<or> last (bootstrap_dir c d) = CHR ''/'' then [] else ''/'')
            @ node_name d @ ''_bootstrap.json'')
     \<and> (CHR ''/'' \<notin> set (node_name d) \<longrightarrow>
          bootstrap_path c d =
            bootstrap_dir c d
            @ (if bootstrap_dir c d = [] \<or> last (bootstrap_dir c d) = CHR ''/'' then [] else ''/'')
            @ node_name d @ ''_bootstrap.json''
          \<and> CHR ''/'' \<notin> set (node_name d @ ''_bootstrap.json''))"
proof (intro conjI impI)
  have content: "json_dumps_indent4 (v0_cfg c) = bootstrap_text"
    using assms(2) by (simp add: json_dumps_v0_cfg)
  {
    assume r: "construct_start_command c w d = (Returns cmd, w')"
    from construct_genesis_success(2) [OF assms(1) r]
    show "fs w' (bootstrap_path c d) = Some (File bootstrap_text)" unfolding content .
    from construct_genesis_success(3) [OF assms(1) r]
    show "trace w' = trace w
             @ (if fs w (bootstrap_dir c d) = None then [MakeDirs (bootstrap_dir c d)] else [])
             @ [WriteFile (bootstrap_path c d) bootstrap_text]" unfolding content .
    from construct_genesis_again [OF assms(1) r]
    show "construct_start_command c w' d =
             (Returns cmd, w'\<lparr>trace := trace w' @ [WriteFile (bootstrap_path c d) bootstrap_text]\<rparr>)"
      unfolding content .
  }
  {
    assume "fs w (bootstrap_dir c d) \<noteq> None \<and> fs w (bootstrap_path c d) \<noteq> Some Dir
          \<and> open_error w (bootstrap_path c d) = None"
    then have h: "fs w (bootstrap_dir c d) \<noteq> None" "fs w (bootstrap_path c d) \<noteq> Some Dir"
      "open_error w (bootstrap_path c d) = None" by simp_all
    from construct_genesis_dir_exists [OF assms(1) h]
    show "construct_start_command c w d =
          (Returns (start_argv c w d),
           w\<lparr>fs := (fs w)(bootstrap_path c d \<mapsto> File bootstrap_text),
             trace := trace w @ [WriteFile (bootstrap_path c d) bootstrap_text]\<rparr>)"
      unfolding content .
  }
  {
    assume "fs w (bootstrap_dir c d) = None \<and> makedirs_error w (bootstrap_dir c d) = None
          \<and> bootstrap_path c d \<noteq> bootstrap_dir c d \<and> fs w (bootstrap_path c d) \<noteq> Some Dir
          \<and> open_error w (bootstrap_path c d) = None"
    then have h: "fs w (bootstrap_dir c d) = None" "makedirs_error w (bootstrap_dir c d) = None"
      "bootstrap_path c d \<noteq> bootstrap_dir c d" "fs w (bootstrap_path c d) \<noteq> Some Dir"
      "open_error w (bootstrap_path c d) = None" by simp_all
    from construct_genesis_dir_missing [OF assms(1) h]
    show "construct_start_command c w d =
          (Returns (start_argv c w d),
           w\<lparr>fs := (fs w)(bootstrap_dir c d \<mapsto> Dir, bootstrap_path c d \<mapsto> File bootstrap_text),
             trace := trace w
               @ [MakeDirs (bootstrap_dir c d), WriteFile (bootstrap_path c d) bootstrap_text]\<rparr>)"
      unfolding content .
  }
  {
    assume "node_name d = [] \<or> hd (node_name d) \<noteq> CHR ''/''"
    then show "bootstrap_path c d =
            bootstrap_dir c d
            @ (if bootstrap_dir c d = [] \<or> last (bootstrap_dir c d) = CHR ''/'' then [] else ''/'')
            @ node_name d @ ''_bootstrap.json''"
      by (rule bootstrap_path_relative)
  }
  {
    assume plain: "CHR ''/'' \<notin> set (node_name d)"
    then have "node_name d = [] \<or> hd (node_name d) \<noteq> CHR ''/''"
      by (rule plain_name_relative)
    then show "bootstrap_path c d =
            bootstrap_dir c d
            @ (if bootstrap_dir c d = [] \<or> last (bootstrap_dir c d) = CHR ''/'' then [] else ''/'')
            @ node_name d @ ''_bootstrap.json''"
      by (rule bootstrap_path_relative)
    from plain show "CHR ''/'' \<notin> set (node_name d @ ''_bootstrap.json'')" by simp
  }
qed

lemma example_fields:
  "host_name example_controller = ''h''" "verbose example_controller = False"
  "v0_cfg example_controller = [(''InitialConnectivity'', 0)]"
  "nodes example_controller = []"
  "genesis alpha" "node_name alpha = ''alpha''" "http_port alpha = 8000"
  "gossip_port alpha = 9000" "currency_home alpha = None"
  "bootstrap_dir example_controller alpha = ''/etc/sawtooth''"
  "bootstrap_path example_controller alpha = ''/etc/sawtooth/alpha_bootstrap.json''"
  by (simp_all add: alpha_def example_controller_def example_config_def init_def
      bootstrap_dir_def bootstrap_path_def os_path_join_def)

lemma example_start_argv:
  "start_argv example_controller example_world alpha =
     [''/project/bin/txnvalidator'', ''--node'', ''alpha'',
      ''--listen'', ''h:8000/TCP http'', ''--listen'', ''h:9000/UDP gossip'',
      ''--config'', ''base.json'', ''--config'', ''alpha_bootstrap.json'']"
  by (simp add: start_argv_def alpha_def example_controller_def init_def example_world_def
      str_int_def str_nat.simps)

lemma example_construct:
  "construct_start_command example_controller example_world alpha =
     (Returns (start_argv example_controller example_world alpha), bootstrapped_world)"
proof -
  have "construct_start_command example_controller example_world alpha =
          (Returns (start_argv example_controller example_world alpha),
           example_world\<lparr>fs := (fs example_world)(bootstrap_dir example_controller alpha \<mapsto> Dir,
                           bootstrap_path example_controller alpha
                             \<mapsto> File (json_dumps_indent4 (v0_cfg example_controller))),
              trace := trace example_world @ [MakeDirs (bootstrap_dir example_controller alpha),
                        WriteFile (bootstrap_path example_controller alpha)
                          (json_dumps_indent4 (v0_cfg example_controller))]\<rparr>)"
    by (rule construct_genesis_dir_missing)
       (simp_all add: example_fields, simp_all add: example_world_def)
  then show ?thesis
    by (simp add: example_fields json_dumps_v0_cfg bootstrapped_world_def)
       (simp add: example_world_def)
qed

lemma example_world_fields:
  "fs example_world = Map.empty" "trace example_world = []" "next_pid example_world = 100"
  "makedirs_error example_world p = None" "open_error example_world p = None"
  "spawn_error example_world cmd = None" "signal_error example_world n = None"
  "exit_status example_world n = None" "wait_status example_world n = Some 0"
  "get_executable_script example_world name = [''/project/bin/'' @ name]"
  "environ example_world = [(''HOME'', ''/root'')]" "sys_path example_world = [''/project/core'']"
  by (simp_all add: example_world_def)

lemma bootstrapped_world_fields:
  "fs bootstrapped_world ''/etc/sawtooth'' = Some Dir"
  "fs bootstrapped_world ''/etc/sawtooth/alpha_bootstrap.json'' = Some (File bootstrap_text)"
  "fs bootstrapped_world ''alpha_bootstrap.json'' = None"
  "open_error bootstrapped_world p = None"
  "trace bootstrapped_world =
     [MakeDirs ''/etc/sawtooth'', WriteFile ''/etc/sawtooth/alpha_bootstrap.json'' bootstrap_text]"
  by (simp_all add: bootstrapped_world_def example_world_def)

text \<open>The construction for \<open>rooted\<close> in the example world.\<close>

lemma rooted_fields:
  "genesis rooted" "node_name rooted = ''/tmp/evil''"
  "bootstrap_dir example_controller rooted = ''/etc/sawtooth''"
  "bootstrap_path example_controller rooted = ''/tmp/evil_bootstrap.json''"
  by (simp_all add: rooted_def example_controller_def example_config_def init_def
      bootstrap_dir_def bootstrap_path_def os_path_join_def)

lemma rooted_start_argv:
  "start_argv example_controller example_world rooted =
     [''/project/bin/txnvalidator'', ''--node'', ''/tmp/evil'',
      ''--listen'', ''h:8000/TCP http'', ''--listen'', ''h:9000/UDP gossip'',
      ''--config'', ''/tmp/evil_bootstrap.json'']"
  by (simp add: start_argv_def rooted_def example_controller_def init_def example_world_def
      str_int_def str_nat.simps)

lemma rooted_construct:
  "construct_start_command example_controller example_world rooted =
     (Returns (start_argv example_controller example_world rooted),
      example_world
        \<lparr>fs := [''/etc/sawtooth'' \<mapsto> Dir, ''/tmp/evil_bootstrap.json'' \<mapsto> File bootstrap_text],
         trace := [MakeDirs ''/etc/sawtooth'',
                   WriteFile ''/tmp/evil_bootstrap.json'' bootstrap_text]\<rparr>)"
proof -
  have "construct_start_command example_controller example_world rooted =
          (Returns (start_argv example_controller example_world rooted),
           example_world\<lparr>fs := (fs example_world)(bootstrap_dir example_controller rooted \<mapsto> Dir,
                           bootstrap_path example_controller rooted
                             \<mapsto> File (json_dumps_indent4 (v0_cfg example_controller))),
              trace := trace example_world @ [MakeDirs (bootstrap_dir example_controller rooted),
                        WriteFile (bootstrap_path example_controller rooted)
                          (json_dumps_indent4 (v0_cfg example_controller))]\<rparr>)"
    by (rule construct_genesis_dir_missing)
       (simp_all add: rooted_fields, simp_all add: example_world_def)
  then show ?thesis
    by (simp add: rooted_fields example_fields json_dumps_v0_cfg)
       (simp add: example_world_def)
qed

text \<open>
  For a node named \<open>/tmp/evil\<close> the construction returns, creates the config directory
  \<open>/etc/sawtooth\<close> and writes the bootstrap file at \<open>/tmp/evil_bootstrap.json\<close>: the
  directory and that file are all there is afterwards, and nothing is in the directory.
\<close>

theorem bootstrap_file_outside_counterexample:
  "genesis rooted
   \<and> v0_cfg example_controller = [(''InitialConnectivity'', 0)]
   \<and> bootstrap_dir example_controller rooted = ''/etc/sawtooth''
   \<and> fst (construct_start_command example_controller example_world rooted)
       = Returns (start_argv example_controller example_world rooted)
   \<and> fs (snd (construct_start_command example_controller example_world rooted))
       = [''/etc/sawtooth'' \<mapsto> Dir, ''/tmp/evil_bootstrap.json'' \<mapsto> File bootstrap_text]
   \<and> fs (snd (construct_start_command example_controller example_world rooted))
        (''/etc/sawtooth'' @ ''/'' @ node_name rooted @ ''_bootstrap.json'') = None"
  by (simp add: rooted_construct rooted_fields example_fields)

theorem bootstrap_file_written_witness:
  "genesis alpha \<and> v0_cfg example_controller = [(''InitialConnectivity'', 0)]
   \<and> fs example_world (bootstrap_dir example_controller alpha) = None
   \<and> makedirs_error example_world (bootstrap_dir example_controller alpha) = None
   \<and> bootstrap_path example_controller alpha \<noteq> bootstrap_dir example_controller alpha
   \<and> fs example_world (bootstrap_path example_controller alpha) \<noteq> Some Dir
   \<and> open_error example_world (bootstrap_path example_controller alpha) = None
   \<and> construct_start_command example_controller example_world alpha
       = (Returns (start_argv example_controller example_world alpha), bootstrapped_world)
   \<and> fs bootstrapped_world (bootstrap_dir example_controller alpha) \<noteq> None
   \<and> fs bootstrapped_world (bootstrap_path example_controller alpha) \<noteq> Some Dir
   \<and> open_error bootstrapped_world (bootstrap_path example_controller alpha) = None
   \<and> fs bootstrapped_world (bootstrap_path example_controller alpha) = Some (File bootstrap_text)
   \<and> construct_start_command example_controller bootstrapped_world alpha
       = (Returns (start_argv example_controller example_world alpha),
          bootstrapped_world\<lparr>trace := trace bootstrapped_world
             @ [WriteFile (bootstrap_path example_controller alpha) bootstrap_text]\<rparr>)
   \<and> (node_name alpha = [] \<or> hd (node_name alpha) \<noteq> CHR ''/'')
   \<and> CHR ''/'' \<notin> set (node_name alpha)
   \<and> bootstrap_path example_controller alpha = ''/etc/sawtooth'' @ ''/'' @ ''alpha_bootstrap.json''"
proof -
  have g: "genesis alpha" and v: "v0_cfg example_controller = [(''InitialConnectivity'', 0)]"
    by (rule example_fields)+
  have missing: "fs example_world (bootstrap_dir example_controller alpha) = None"
    "makedirs_error example_world (bootstrap_dir example_controller alpha) = None"
    "bootstrap_path example_controller alpha \<noteq> bootstrap_dir example_controller alpha"
    "fs example_world (bootstrap_path example_controller alpha) \<noteq> Some Dir"
    "open_error example_world (bootstrap_path example_controller alpha) = None"
    by (simp_all add: example_fields example_world_fields)
  have there: "fs bootstrapped_world (bootstrap_dir example_controller alpha) \<noteq> None"
    "fs bootstrapped_world (bootstrap_path example_controller alpha) \<noteq> Some Dir"
    "open_error bootstrapped_world (bootstrap_path example_controller alpha) = None"
    by (simp_all add: example_fields bootstrapped_world_fields)
  note first = bootstrap_file_written [OF g v, of example_world
      "start_argv example_controller example_world alpha" bootstrapped_world]
  from first example_construct
  have written: "fs bootstrapped_world (bootstrap_path example_controller alpha)
                   = Some (File bootstrap_text)"
    and again: "construct_start_command example_controller bootstrapped_world alpha
       = (Returns (start_argv example_controller example_world alpha),
          bootstrapped_world\<lparr>trace := trace bootstrapped_world
             @ [WriteFile (bootstrap_path example_controller alpha) bootstrap_text]\<rparr>)"
    by blast+
  have rel: "node_name alpha = [] \<or> hd (node_name alpha) \<noteq> CHR ''/''"
    and plain: "CHR ''/'' \<notin> set (node_name alpha)"
    by (simp_all add: example_fields)
  from first plain
  have "bootstrap_path example_controller alpha =
          bootstrap_dir example_controller alpha
          @ (if bootstrap_dir example_controller alpha = []
                \<or> last (bootstrap_dir example_controller alpha) = CHR ''/'' then [] else ''/'')
          @ node_name alpha @ ''_bootstrap.json''" by blast
  then have place: "bootstrap_path example_controller alpha
                      = ''/etc/sawtooth'' @ ''/'' @ ''alpha_bootstrap.json''"
    by (simp add: example_fields)
  from g v missing there written again example_construct rel plain place show ?thesis
    by (intro conjI)
qed

lemma construct_returns_start_argv:
  assumes "fst (construct_start_command c w d) = Returns cmd"
  shows "cmd = start_argv c w d"
proof (cases "genesis d")
  case True
  from assms have "construct_start_command c w d = (Returns cmd, snd (construct_start_command c w d))"
    by (cases "construct_start_command c w d") simp
  from construct_genesis_success(1) [OF True this] show ?thesis .
next
  case False
  with assms show ?thesis by (simp add: construct_without_genesis)
qed

lemma str_int_8000: "str_int 8000 = ''8000''"
  by (simp add: str_int_def str_nat.simps)

lemma str_int_9000: "str_int 9000 = ''9000''"
  by (simp add: str_int_def str_nat.simps)

text \<open>
  C7. The argument vector is a function of the controller's host name and verbosity, of
  the node's arguments and of the resolver's prefix. With host \<open>h\<close>, HTTP port 8000
  and gossip port 9000, whenever the construction returns, the vector is the prefix,
  the verbosity flag if set, \<open>--node\<close> with the node's name, \<open>--listen\<close> with
  \<open>h:8000/TCP http\<close>, \<open>--listen\<close> with \<open>h:9000/UDP gossip\<close>, one \<open>--config\<close>
  for every config file in the order given, and for a genesis node the bootstrap
  file's name. For a node that is not a genesis node the construction always returns,
  and leaves the world as it was.
\<close>

theorem start_command_deterministic:
  assumes "host_name c = h" and "http_port d = 8000" and "gossip_port d = 9000"
  shows "(fst (construct_start_command c w d) = Returns cmd \<longrightarrow>
            cmd = get_executable_script w ''txnvalidator''
                  @ (if verbose c then [''-vv''] else [])
                  @ [''--node'', node_name d,
                     ''--listen'', h @ '':8000/TCP http'',
                     ''--listen'', h @ '':9000/UDP gossip'']
                  @ concat (map (\<lambda>x. [''--config'', x]) (config_files d))
                  @ (if genesis d then [''--config'', node_name d @ ''_bootstrap.json''] else []))
         \<and> (\<not> genesis d \<longrightarrow>
              construct_start_command c w d =
                (Returns (get_executable_script w ''txnvalidator''
                          @ (if verbose c then [''-vv''] else [])
                          @ [''--node'', node_name d,
                             ''--listen'', h @ '':8000/TCP http'',
                             ''--listen'', h @ '':9000/UDP gossip'']
                          @ concat (map (\<lambda>x. [''--config'', x]) (config_files d))), w))"
proof -
  have argv: "start_argv c w d =
                get_executable_script w ''txnvalidator''
                  @ (if verbose c then [''-vv''] else [])
                  @ [''--node'', node_name d,
                     ''--listen'', h @ '':8000/TCP http'',
                     ''--listen'', h @ '':9000/UDP gossip'']
                  @ concat (map (\<lambda>x. [''--config'', x]) (config_files d))
                  @ (if genesis d then [''--config'', node_name d @ ''_bootstrap.json''] else [])"
    using assms by (simp add: start_argv_def str_int_8000 str_int_9000)
  show ?thesis
  proof (intro conjI impI)
    assume "fst (construct_start_command c w d) = Returns cmd"
    from construct_returns_start_argv [OF this] argv
    show "cmd = get_executable_script w ''txnvalidator''
                  @ (if verbose c then [''-vv''] else [])
                  @ [''--node'', node_name d,
                     ''--listen'', h @ '':8000/TCP http'',
                     ''--listen'', h @ '':9000/UDP gossip'']
                  @ concat (map (\<lambda>x. [''--config'', x]) (config_files d))
                  @ (if genesis d then [''--config'', node_name d @ ''_bootstrap.json''] else [])"
      by simp
  next
    assume ng: "\<not> genesis d"
    from construct_without_genesis [OF ng, of c w] argv ng
    show "construct_start_command c w d =
                (Returns (get_executable_script w ''txnvalidator''
                          @ (if verbose c then [''-vv''] else [])
                          @ [''--node'', node_name d,
                             ''--listen'', h @ '':8000/TCP http'',
                             ''--listen'', h @ '':9000/UDP gossip'']
                          @ concat (map (\<lambda>x. [''--config'', x]) (config_files d))), w)"
      by simp
  qed
qed

theorem start_command_deterministic_witness:
  "host_name example_controller = ''h'' \<and> http_port alpha = 8000 \<and> gossip_port alpha = 9000
   \<and> fst (construct_start_command example_controller example_world alpha) =
       Returns [''/project/bin/txnvalidator'', ''--node'', ''alpha'',
                ''--listen'', ''h:8000/TCP http'', ''--listen'', ''h:9000/UDP gossip'',
                ''--config'', ''base.json'', ''--config'', ''alpha_bootstrap.json'']
   \<and> \<not> genesis (alpha\<lparr>genesis := False\<rparr>)
   \<and> construct_start_command example_controller example_world (alpha\<lparr>genesis := False\<rparr>) =
       (Returns [''/project/bin/txnvalidator'', ''--node'', ''alpha'',
                 ''--listen'', ''h:8000/TCP http'', ''--listen'', ''h:9000/UDP gossip'',
                 ''--config'', ''base.json''], example_world)"
proof -
  have h: "host_name example_controller = ''h''" and p: "http_port alpha = 8000"
    and q: "gossip_port alpha = 9000"
    by (rule example_fields)+
  have plain: "http_port (alpha\<lparr>genesis := False\<rparr>) = 8000"
    "gossip_port (alpha\<lparr>genesis := False\<rparr>) = 9000"
    "\<not> genesis (alpha\<lparr>genesis := False\<rparr>)"
    by (simp_all add: alpha_def)
  have ret: "fst (construct_start_command example_controller example_world alpha)
               = Returns (start_argv example_controller example_world alpha)"
    by (simp add: example_construct)
  note with_genesis = start_command_deterministic [OF h p q, of example_world
      "start_argv example_controller example_world alpha"]
  note without = start_command_deterministic [OF h plain(1,2), of example_world
      "start_argv example_controller example_world alpha"]
  from without plain(3)
  have "construct_start_command example_controller example_world (alpha\<lparr>genesis := False\<rparr>) =
          (Returns (get_executable_script example_world ''txnvalidator''
                    @ (if verbose example_controller then [''-vv''] else [])
                    @ [''--node'', node_name (alpha\<lparr>genesis := False\<rparr>),
                       ''--listen'', ''h'' @ '':8000/TCP http'',
                       ''--listen'', ''h'' @ '':9000/UDP gossip'']
                    @ concat (map (\<lambda>x. [''--config'', x])
                                (config_files (alpha\<lparr>genesis := False\<rparr>)))), example_world)"
    by blast
  then have b: "construct_start_command example_controller example_world
                  (alpha\<lparr>genesis := False\<rparr>) =
       (Returns [''/project/bin/txnvalidator'', ''--node'', ''alpha'',
                 ''--listen'', ''h:8000/TCP http'', ''--listen'', ''h:9000/UDP gossip'',
                 ''--config'', ''base.json''], example_world)"
    by (simp add: example_fields example_world_fields alpha_def)
  from ret have a: "fst (construct_start_command example_controller example_world alpha) =
       Returns [''/project/bin/txnvalidator'', ''--node'', ''alpha'',
                ''--listen'', ''h:8000/TCP http'', ''--listen'', ''h:9000/UDP gossip'',
                ''--config'', ''base.json'', ''--config'', ''alpha_bootstrap.json'']"
    using with_genesis by (simp add: example_start_argv)
  from h p q a plain(3) b show ?thesis by (intro conjI)
qed

text \<open>
  For the node named \<open>/tmp/evil\<close> the flag's argument is \<open>/tmp/evil_bootstrap.json\<close>,
  the file is there, and there is nothing at \<open>node_name_bootstrap.json\<close> under the
  config directory \<open>/etc/sawtooth\<close>.
\<close>

theorem bootstrap_flag_rooted_counterexample:
  "genesis rooted
   \<and> construct_start_command example_controller example_world rooted =
       (Returns [''/project/bin/txnvalidator'', ''--node'', ''/tmp/evil'',
                 ''--listen'', ''h:8000/TCP http'', ''--listen'', ''h:9000/UDP gossip'',
                 ''--config'', ''/tmp/evil_bootstrap.json''],
        example_world
          \<lparr>fs := [''/etc/sawtooth'' \<mapsto> Dir,
                  ''/tmp/evil_bootstrap.json'' \<mapsto> File bootstrap_text],
           trace := [MakeDirs ''/etc/sawtooth'',
                     WriteFile ''/tmp/evil_bootstrap.json'' bootstrap_text]\<rparr>)
   \<and> bootstrap_dir example_controller rooted = ''/etc/sawtooth''
   \<and> [''/etc/sawtooth'' \<mapsto> Dir, ''/tmp/evil_bootstrap.json'' \<mapsto> File bootstrap_text]
        (''/etc/sawtooth'' @ ''/'' @ node_name rooted @ ''_bootstrap.json'') = None"
  by (simp add: rooted_construct rooted_start_argv rooted_fields)

text \<open>
  C6, as the code has it. For a genesis node, when the construction returns, the
  command is the command of the same node without genesis followed by \<open>--config\<close> and
  the file name \<open>node_name_bootstrap.json\<close>. That name, resolved in the resolved config
  directory as \<open>os.path.join\<close> resolves it, is the path of the file the construction
  wrote last, and the file holds the bootstrap text. So the flag references the file
  just written; the file is the directory, a separator and the file's name whenever the
  node's name does not begin with a separator.
\<close>

theorem bootstrap_flag_is_file_name:
  assumes "genesis d" and "construct_start_command c w d = (Returns cmd, w')"
  shows "cmd = start_argv c w (d\<lparr>genesis := False\<rparr>)
               @ [''--config'', node_name d @ ''_bootstrap.json'']
         \<and> fs w' (os_path_join (bootstrap_dir c d) (last cmd))
             = Some (File (json_dumps_indent4 (v0_cfg c)))
         \<and> last (trace w')
             = WriteFile (os_path_join (bootstrap_dir c d) (last cmd))
                 (json_dumps_indent4 (v0_cfg c))
         \<and> (node_name d = [] \<or> hd (node_name d) \<noteq> CHR ''/'' \<longrightarrow>
              os_path_join (bootstrap_dir c d) (last cmd) =
                bootstrap_dir c d
                @ (if bootstrap_dir c d = [] \<or> last (bootstrap_dir c d) = CHR ''/''
                   then [] else ''/'')
                @ node_name d @ ''_bootstrap.json'')"
proof -
  note s = construct_genesis_success(1-3) [OF assms]
  from s(1) assms(1)
  have cmd: "cmd = start_argv c w (d\<lparr>genesis := False\<rparr>)
               @ [''--config'', node_name d @ ''_bootstrap.json'']"
    by (simp add: start_argv_def)
  then have flag: "last cmd = node_name d @ ''_bootstrap.json''" by simp
  then have path: "os_path_join (bootstrap_dir c d) (last cmd) = bootstrap_path c d"
    by (simp add: bootstrap_path_def)
  from s(2) have there: "fs w' (os_path_join (bootstrap_dir c d) (last cmd))
             = Some (File (json_dumps_indent4 (v0_cfg c)))"
    unfolding path .
  from s(3) have latest: "last (trace w')
             = WriteFile (os_path_join (bootstrap_dir c d) (last cmd))
                 (json_dumps_indent4 (v0_cfg c))"
    unfolding path by simp
  have place: "node_name d = [] \<or> hd (node_name d) \<noteq> CHR ''/'' \<longrightarrow>
              os_path_join (bootstrap_dir c d) (last cmd) =
                bootstrap_dir c d
                @ (if bootstrap_dir c d = [] \<or> last (bootstrap_dir c d) = CHR ''/''
                   then [] else ''/'')
                @ node_name d @ ''_bootstrap.json''"
    unfolding path by (rule impI) (rule bootstrap_path_relative)
  from cmd there latest place show ?thesis by (intro conjI)
qed

theorem bootstrap_flag_is_file_name_witness:
  "genesis alpha
   \<and> construct_start_command example_controller example_world alpha
       = (Returns (start_argv example_controller example_world alpha), bootstrapped_world)
   \<and> (node_name alpha = [] \<or> hd (node_name alpha) \<noteq> CHR ''/'')
   \<and> last (start_argv example_controller example_world alpha) = ''alpha_bootstrap.json''
   \<and> os_path_join ''/etc/sawtooth'' ''alpha_bootstrap.json''
       = ''/etc/sawtooth'' @ ''/'' @ ''alpha_bootstrap.json''
   \<and> fs bootstrapped_world (os_path_join ''/etc/sawtooth'' ''alpha_bootstrap.json'')
       = Some (File bootstrap_text)
   \<and> last (trace bootstrapped_world)
       = WriteFile (os_path_join ''/etc/sawtooth'' ''alpha_bootstrap.json'') bootstrap_text"
proof -
  have g: "genesis alpha" by (rule example_fields)
  have rel: "node_name alpha = [] \<or> hd (node_name alpha) \<noteq> CHR ''/''"
    by (simp add: example_fields)
  have flag: "last (start_argv example_controller example_world alpha) = ''alpha_bootstrap.json''"
    by (simp add: example_start_argv)
  note t = bootstrap_flag_is_file_name [OF g example_construct]
  from t rel
  have "os_path_join (bootstrap_dir example_controller alpha)
          (last (start_argv example_controller example_world alpha)) =
        bootstrap_dir example_controller alpha
        @ (if bootstrap_dir example_controller alpha = []
              \<or> last (bootstrap_dir example_controller alpha) = CHR ''/'' then [] else ''/'')
        @ node_name alpha @ ''_bootstrap.json''"
    by blast
  then have place: "os_path_join ''/etc/sawtooth'' ''alpha_bootstrap.json''
       = ''/etc/sawtooth'' @ ''/'' @ ''alpha_bootstrap.json''"
    by (simp add: example_fields flag)
  from t have "fs bootstrapped_world (os_path_join (bootstrap_dir example_controller alpha)
          (last (start_argv example_controller example_world alpha)))
       = Some (File (json_dumps_indent4 (v0_cfg example_controller)))"
    and "last (trace bootstrapped_world)
       = WriteFile (os_path_join (bootstrap_dir example_controller alpha)
            (last (start_argv example_controller example_world alpha)))
           (json_dumps_indent4 (v0_cfg example_controller))"
    by blast+
  then have there: "fs bootstrapped_world (os_path_join ''/etc/sawtooth'' ''alpha_bootstrap.json'')
       = Some (File bootstrap_text)"
    and latest: "last (trace bootstrapped_world)
       = WriteFile (os_path_join ''/etc/sawtooth'' ''alpha_bootstrap.json'') bootstrap_text"
    by (simp_all add: example_fields flag json_dumps_v0_cfg)
  from g example_construct rel flag place there latest show ?thesis by (intro conjI)
qed

section \<open>Start\<close>

lemma is_running_fields:
  "host_name (fst (snd (is_running c w name))) = host_name c"
  "verbose (fst (snd (is_running c w name))) = verbose c"
  "base_config (fst (snd (is_running c w name))) = base_config c"
  "v0_cfg (fst (snd (is_running c w name))) = v0_cfg c"
proof -
  obtain r c1 w1 where run: "is_running c w name = (r, c1, w1)" by (cases "is_running c w name")
  have "c1 = c \<or> c1 = c\<lparr>nodes := AList.delete name (nodes c)\<rparr>"
  proof (cases r)
    case True
    with run have "is_running c w name = (True, c1, w1)" by simp
    from is_running_True_D [OF this] show ?thesis by blast
  next
    case False
    with run have "is_running c w name = (False, c1, w1)" by simp
    from is_running_False_D [OF this] show ?thesis by blast
  qed
  with run show "host_name (fst (snd (is_running c w name))) = host_name c"
    "verbose (fst (snd (is_running c w name))) = verbose c"
    "base_config (fst (snd (is_running c w name))) = base_config c"
    "v0_cfg (fst (snd (is_running c w name))) = v0_cfg c" by auto
qed

lemma construct_world:
  "spawn_error (snd (construct_start_command c w d)) = spawn_error w"
  "exit_status (snd (construct_start_command c w d)) = exit_status w"
  "next_pid (snd (construct_start_command c w d)) = next_pid w"
  "filter is_spawn (trace (snd (construct_start_command c w d))) = filter is_spawn (trace w)"
proof -
  have "spawn_error (snd (construct_start_command c w d)) = spawn_error w
      \<and> exit_status (snd (construct_start_command c w d)) = exit_status w
      \<and> next_pid (snd (construct_start_command c w d)) = next_pid w
      \<and> filter is_spawn (trace (snd (construct_start_command c w d))) = filter is_spawn (trace w)"
  proof (cases "genesis d")
    case False
    then show ?thesis by (simp add: construct_without_genesis)
  next
    case True
    show ?thesis unfolding construct_genesis_cases [OF True] Let_def
      by (simp add: is_spawn_def)
  qed
  then show "spawn_error (snd (construct_start_command c w d)) = spawn_error w"
    "exit_status (snd (construct_start_command c w d)) = exit_status w"
    "next_pid (snd (construct_start_command c w d)) = next_pid w"
    "filter is_spawn (trace (snd (construct_start_command c w d))) = filter is_spawn (trace w)"
    by simp_all
qed

lemma start_running:
  "fst (is_running c w (node_name d)) \<Longrightarrow>
   start c w d = (Returns (), snd (is_running c w (node_name d)))"
  by (cases "is_running c w (node_name d)") (simp add: start_def)


lemma start_spawn_fails:
  assumes "is_running c w (node_name d) = (False, c1, w1)"
    and "construct_start_command c1 w1 d = (Returns cmd, w2)"
    and "spawn_error w2 cmd = Some msg"
  shows "start c w d = (Raises (OSError msg), c1, w2)"
  using assms by (simp add: start_def popen_spawn_def get_out_err_def)

lemma start_spawns:
  assumes "is_running c w (node_name d) = (False, c1, w1)"
    and "construct_start_command c1 w1 d = (Returns cmd, w2)"
    and "spawn_error w2 cmd = None"
  shows "start c w d =
           (Returns (),
            (if exit_status w2 (next_pid w2) = None
             then c1\<lparr>nodes := AList.update (node_name d)
                                \<lparr>pid = next_pid w2, returncode = None\<rparr> (nodes c1)\<rparr>
             else c1),
            w2\<lparr>next_pid := Suc (next_pid w2),
               trace := trace w2 @ [Spawn (next_pid w2) cmd (build_env w2 d) (Some (Stdout, Stderr)),
                                    Poll (next_pid w2)]\<rparr>)"
  using assms by (simp add: start_def popen_spawn_def get_out_err_def poll_def build_env_def Let_def)

lemma update_fresh_filter:
  "k \<notin> fst ` set al \<Longrightarrow> filter (\<lambda>kv. fst kv = k) (AList.update k v al) = [(k, v)]"
  by (induction al) auto

lemma is_running_False_world:
  assumes "is_running c w name = (False, c1, w1)"
  shows "fs w1 = fs w" "spawn_error w1 = spawn_error w" "exit_status w1 = exit_status w"
    "next_pid w1 = next_pid w" "filter is_spawn (trace w1) = filter is_spawn (trace w)"
    "get_executable_script w1 = get_executable_script w"
    "makedirs_error w1 = makedirs_error w" "open_error w1 = open_error w"
    "environ w1 = environ w" "sys_path w1 = sys_path w" "wait_status w1 = wait_status w"
proof -
  from is_running_world [of c w name]
  obtain ps where "snd (snd (is_running c w name)) = w\<lparr>trace := trace w @ map Poll ps\<rparr>" ..
  with assms have w1: "w1 = w\<lparr>trace := trace w @ map Poll ps\<rparr>" by simp
  have "filter is_spawn (map Poll ps) = []" by (induction ps) (simp_all add: is_spawn_def)
  with w1 show "fs w1 = fs w" "spawn_error w1 = spawn_error w" "exit_status w1 = exit_status w"
    "next_pid w1 = next_pid w" "filter is_spawn (trace w1) = filter is_spawn (trace w)"
    "get_executable_script w1 = get_executable_script w"
    "makedirs_error w1 = makedirs_error w" "open_error w1 = open_error w"
    "environ w1 = environ w" "sys_path w1 = sys_path w" "wait_status w1 = wait_status w"
    by simp_all
qed

lemma bootstrap_of_controller:
  "base_config c1 = base_config c \<Longrightarrow> bootstrap_dir c1 d = bootstrap_dir c d"
  "base_config c1 = base_config c \<Longrightarrow> bootstrap_path c1 d = bootstrap_path c d"
  by (simp_all add: bootstrap_dir_def bootstrap_path_def split: option.splits)

lemma construct_environ:
  "environ (snd (construct_start_command c w d)) = environ w"
  "sys_path (snd (construct_start_command c w d)) = sys_path w"
proof -
  have "environ (snd (construct_start_command c w d)) = environ w
      \<and> sys_path (snd (construct_start_command c w d)) = sys_path w"
  proof (cases "genesis d")
    case False
    then show ?thesis by (simp add: construct_without_genesis)
  next
    case True
    show ?thesis unfolding construct_genesis_cases [OF True] Let_def by simp
  qed
  then show "environ (snd (construct_start_command c w d)) = environ w"
    "sys_path (snd (construct_start_command c w d)) = sys_path w" by simp_all
qed

lemma build_env_world:
  "environ w' = environ w \<Longrightarrow> sys_path w' = sys_path w \<Longrightarrow> build_env w' d = build_env w d"
  by (simp add: build_env_def)

text \<open>The first of two starts: the node is not running, the command is built and spawned.\<close>

lemma start_spawns_initial:
  assumes run: "is_running c w (node_name d) = (False, c1, w1)"
    and cmd: "construct_start_command c1 w1 d = (Returns cmd, w2)"
    and ok: "spawn_error w cmd = None"
  shows "start c w d =
           (Returns (),
            (if exit_status w (next_pid w) = None
             then c1\<lparr>nodes := AList.update (node_name d)
                                \<lparr>pid = next_pid w, returncode = None\<rparr> (nodes c1)\<rparr>
             else c1),
            w2\<lparr>next_pid := Suc (next_pid w),
               trace := trace w2 @ [Spawn (next_pid w) cmd (build_env w d) (Some (Stdout, Stderr)),
                                    Poll (next_pid w)]\<rparr>)"
    and "exit_status w2 = exit_status w"
proof -
  note w1 = is_running_False_world [OF run]
  from construct_world(1-3) [of c1 w1 d] cmd w1(2-4)
  have w2: "spawn_error w2 = spawn_error w" "exit_status w2 = exit_status w"
    "next_pid w2 = next_pid w" by simp_all
  from construct_environ [of c1 w1 d] cmd w1(9,10)
  have "environ w2 = environ w" "sys_path w2 = sys_path w" by simp_all
  then have env: "build_env w2 d = build_env w d" by (rule build_env_world)
  from ok w2(1) have "spawn_error w2 cmd = None" by simp
  from start_spawns [OF run cmd this]
  show "start c w d =
           (Returns (),
            (if exit_status w (next_pid w) = None
             then c1\<lparr>nodes := AList.update (node_name d)
                                \<lparr>pid = next_pid w, returncode = None\<rparr> (nodes c1)\<rparr>
             else c1),
            w2\<lparr>next_pid := Suc (next_pid w),
               trace := trace w2 @ [Spawn (next_pid w) cmd (build_env w d) (Some (Stdout, Stderr)),
                                    Poll (next_pid w)]\<rparr>)"
    unfolding w2 env .
  show "exit_status w2 = exit_status w" by (rule w2(2))
qed

text \<open>A start of a node whose registered child is still running.\<close>

lemma start_registered_alive:
  assumes "map_of (nodes c) (node_name d) = Some h" and "returncode h = None"
    and "exit_status w (pid h) = None"
  shows "start c w d = (Returns (), c, w\<lparr>trace := trace w @ [Poll (pid h)]\<rparr>)"
proof -
  from is_running_alive [OF assms]
  have run: "is_running c w (node_name d) = (True, c, w\<lparr>trace := trace w @ [Poll (pid h)]\<rparr>)" .
  then have "fst (is_running c w (node_name d))" by simp
  from start_running [OF this] run show ?thesis by simp
qed

lemma start_twice_tracked:
  assumes run: "is_running c w (node_name d) = (False, c1, w1)"
    and cmd: "construct_start_command c1 w1 d = (Returns cmd, w2)"
    and ok: "spawn_error w cmd = None"
    and alive: "exit_status w (next_pid w) = None"
  defines "h \<equiv> \<lparr>pid = next_pid w, returncode = None\<rparr>"
  defines "c' \<equiv> c1\<lparr>nodes := AList.update (node_name d) h (nodes c1)\<rparr>"
  shows "fst (snd (start c w d)) = c'"
    and "filter (\<lambda>kv. fst kv = node_name d) (nodes c') = [(node_name d, h)]"
    and "exit_status w' (next_pid w) = None \<Longrightarrow>
         start c' w' d = (Returns (), c', w'\<lparr>trace := trace w' @ [Poll (next_pid w)]\<rparr>)"
    and "start_twice c w d =
           (Returns (), c',
            (snd (snd (start c w d)))
              \<lparr>trace := trace (snd (snd (start c w d))) @ [Poll (next_pid w)]\<rparr>)"
proof -
  note first = start_spawns_initial [OF run cmd ok]
  from first(1) alive
  have st: "start c w d =
              (Returns (), c',
               w2\<lparr>next_pid := Suc (next_pid w),
                  trace := trace w2 @ [Spawn (next_pid w) cmd (build_env w d) (Some (Stdout, Stderr)),
                                       Poll (next_pid w)]\<rparr>)"
    by (simp add: c'_def h_def)
  then show "fst (snd (start c w d)) = c'" by simp
  from is_running_False_D [OF run] have "map_of (nodes c1) (node_name d) = None" ..
  then have "node_name d \<notin> fst ` set (nodes c1)" by (simp add: map_of_eq_None_iff)
  then show "filter (\<lambda>kv. fst kv = node_name d) (nodes c') = [(node_name d, h)]"
    unfolding c'_def by (simp add: update_fresh_filter)
  have tracked: "map_of (nodes c') (node_name d) = Some h"
    by (simp add: c'_def update_conv')
  have rc: "returncode h = None" and p: "pid h = next_pid w" by (simp_all add: h_def)
  {
    fix v :: world assume "exit_status v (next_pid w) = None"
    then have "exit_status v (pid h) = None" by (simp add: p)
    from start_registered_alive [OF tracked rc this]
    have "start c' v d = (Returns (), c', v\<lparr>trace := trace v @ [Poll (next_pid w)]\<rparr>)"
      by (simp add: p)
  }
  note again = this
  show "exit_status w' (next_pid w) = None \<Longrightarrow>
         start c' w' d = (Returns (), c', w'\<lparr>trace := trace w' @ [Poll (next_pid w)]\<rparr>)"
    by (rule again)
  have "exit_status (snd (snd (start c w d))) (next_pid w) = None"
    using st first(2) alive by simp
  from again [OF this] st
  show "start_twice c w d =
           (Returns (), c',
            (snd (snd (start c w d)))
              \<lparr>trace := trace (snd (snd (start c w d))) @ [Poll (next_pid w)]\<rparr>)"
    by (simp add: start_twice_def)
qed

text \<open>
  C1, as the code has it. If \<open>is_running\<close> answers \<open>True\<close>, \<open>start\<close> spawns nothing
  and leaves the registry as it was; all it does is the poll of the liveness check.
  Otherwise, when the command is built and the spawn succeeds, \<open>start\<close> spawns exactly
  once, polls the new handle once, and registers it under the node's name if and only
  if that poll reports the child running. If it does, the registry then holds exactly
  one entry for the name; a further \<open>start\<close> in any world where that child is still
  running spawns nothing and changes nothing; in particular two starts in a row make one
  spawn and leave one tracked process.
\<close>

theorem start_idempotent:
  "(fst (is_running c w (node_name d)) \<longrightarrow>
      (\<exists>h. map_of (nodes c) (node_name d) = Some h
          \<and> start c w d = (Returns (), c, w\<lparr>trace := trace w @ [Poll (pid h)]\<rparr>)))
   \<and> (is_running c w (node_name d) = (False, c1, w1)
        \<and> construct_start_command c1 w1 d = (Returns cmd, w2) \<and> spawn_error w cmd = None \<longrightarrow>
      start c w d =
        (Returns (),
         (if exit_status w (next_pid w) = None
          then c1\<lparr>nodes := AList.update (node_name d)
                             \<lparr>pid = next_pid w, returncode = None\<rparr> (nodes c1)\<rparr>
          else c1),
         w2\<lparr>next_pid := Suc (next_pid w),
            trace := trace w2 @ [Spawn (next_pid w) cmd (build_env w d) (Some (Stdout, Stderr)),
                                 Poll (next_pid w)]\<rparr>)
      \<and> filter is_spawn (trace w2) = filter is_spawn (trace w)
      \<and> map_of (nodes c1) (node_name d) = None)
   \<and> (is_running c w (node_name d) = (False, c1, w1)
        \<and> construct_start_command c1 w1 d = (Returns cmd, w2) \<and> spawn_error w cmd = None
        \<and> exit_status w (next_pid w) = None \<longrightarrow>
      fst (snd (start c w d)) =
        c1\<lparr>nodes := AList.update (node_name d) \<lparr>pid = next_pid w, returncode = None\<rparr> (nodes c1)\<rparr>
      \<and> filter (\<lambda>kv. fst kv = node_name d) (nodes (fst (snd (start c w d))))
          = [(node_name d, \<lparr>pid = next_pid w, returncode = None\<rparr>)]
      \<and> (exit_status w' (next_pid w) = None \<longrightarrow>
           start (fst (snd (start c w d))) w' d =
             (Returns (), fst (snd (start c w d)), w'\<lparr>trace := trace w' @ [Poll (next_pid w)]\<rparr>))
      \<and> start_twice c w d =
           (Returns (), fst (snd (start c w d)),
            (snd (snd (start c w d)))
              \<lparr>trace := trace (snd (snd (start c w d))) @ [Poll (next_pid w)]\<rparr>))"
proof (intro conjI impI)
  assume "fst (is_running c w (node_name d))"
  from is_running_fst_True_D [OF this] obtain h where
    h: "map_of (nodes c) (node_name d) = Some h" "returncode h = None"
    "exit_status w (pid h) = None" by blast
  from h(1) start_registered_alive [OF h]
  show "\<exists>h. map_of (nodes c) (node_name d) = Some h
          \<and> start c w d = (Returns (), c, w\<lparr>trace := trace w @ [Poll (pid h)]\<rparr>)"
    by blast
next
  assume a: "is_running c w (node_name d) = (False, c1, w1)
        \<and> construct_start_command c1 w1 d = (Returns cmd, w2) \<and> spawn_error w cmd = None"
  then have run: "is_running c w (node_name d) = (False, c1, w1)"
    and cmd: "construct_start_command c1 w1 d = (Returns cmd, w2)"
    and ok: "spawn_error w cmd = None" by simp_all
  from start_spawns_initial(1) [OF run cmd ok]
  show "start c w d =
        (Returns (),
         (if exit_status w (next_pid w) = None
          then c1\<lparr>nodes := AList.update (node_name d)
                             \<lparr>pid = next_pid w, returncode = None\<rparr> (nodes c1)\<rparr>
          else c1),
         w2\<lparr>next_pid := Suc (next_pid w),
            trace := trace w2 @ [Spawn (next_pid w) cmd (build_env w d) (Some (Stdout, Stderr)),
                                 Poll (next_pid w)]\<rparr>)" .
  from construct_world(4) [of c1 w1 d] cmd is_running_False_world(5) [OF run]
  show "filter is_spawn (trace w2) = filter is_spawn (trace w)" by simp
  from is_running_False_D [OF run] show "map_of (nodes c1) (node_name d) = None" ..
next
  assume a: "is_running c w (node_name d) = (False, c1, w1)
        \<and> construct_start_command c1 w1 d = (Returns cmd, w2) \<and> spawn_error w cmd = None
        \<and> exit_status w (next_pid w) = None"
  then have run: "is_running c w (node_name d) = (False, c1, w1)"
    and cmd: "construct_start_command c1 w1 d = (Returns cmd, w2)"
    and ok: "spawn_error w cmd = None" and alive: "exit_status w (next_pid w) = None"
    by simp_all
  note t = start_twice_tracked [OF run cmd ok alive]
  show c': "fst (snd (start c w d)) =
        c1\<lparr>nodes := AList.update (node_name d) \<lparr>pid = next_pid w, returncode = None\<rparr> (nodes c1)\<rparr>"
    by (rule t(1))
  show "filter (\<lambda>kv. fst kv = node_name d) (nodes (fst (snd (start c w d))))
          = [(node_name d, \<lparr>pid = next_pid w, returncode = None\<rparr>)]"
    unfolding c' by (rule t(2))
  show "start_twice c w d =
           (Returns (), fst (snd (start c w d)),
            (snd (snd (start c w d)))
              \<lparr>trace := trace (snd (snd (start c w d))) @ [Poll (next_pid w)]\<rparr>)"
    unfolding c' by (rule t(4))
  {
    assume "exit_status w' (next_pid w) = None"
    from t(3) [OF this]
    show "start (fst (snd (start c w d))) w' d =
             (Returns (), fst (snd (start c w d)), w'\<lparr>trace := trace w' @ [Poll (next_pid w)]\<rparr>)"
      unfolding c' .
  }
qed

lemma example_not_running:
  "is_running example_controller w name = (False, example_controller, w)"
  by (rule is_running_untracked) (simp add: example_fields)

lemma beta_fields:
  "node_name beta = ''beta''" "\<not> genesis beta"
  by (simp_all add: beta_def)

lemma tracking_fields:
  "map_of (nodes tracking_controller) ''alpha'' = Some \<lparr>pid = 7, returncode = None\<rparr>"
  "nodes tracking_controller = [(''alpha'', \<lparr>pid = 7, returncode = None\<rparr>)]"
  by (simp_all add: tracking_controller_def)

lemma dying_world_fields:
  "spawn_error dying_world cmd = None" "exit_status dying_world p = Some 1"
  "next_pid dying_world = 100" "trace dying_world = []"
  by (simp_all add: dying_world_def example_world_def)

text \<open>One start of \<open>beta\<close> on a controller that tracks nothing, in a world where
  spawning succeeds.\<close>

lemma example_start_beta:
  assumes "spawn_error w (start_argv example_controller w beta) = None"
  shows "start example_controller w beta =
           (Returns (),
            (if exit_status w (next_pid w) = None
             then example_controller\<lparr>nodes := [(''beta'', \<lparr>pid = next_pid w, returncode = None\<rparr>)]\<rparr>
             else example_controller),
            w\<lparr>next_pid := Suc (next_pid w),
              trace := trace w @ [Spawn (next_pid w) (start_argv example_controller w beta)
                                    (build_env w beta) (Some (Stdout, Stderr)),
                                  Poll (next_pid w)]\<rparr>)"
proof -
  have run: "is_running example_controller w (node_name beta) = (False, example_controller, w)"
    by (rule example_not_running)
  have cmd: "construct_start_command example_controller w beta
               = (Returns (start_argv example_controller w beta), w)"
    by (rule construct_without_genesis) (rule beta_fields)
  from start_spawns_initial(1) [OF run cmd assms] show ?thesis
    by (simp add: beta_fields example_fields)
qed

text \<open>
  Two starts in a row of a node whose child exits at once: the first spawn is not
  registered, so the second start spawns again, and no process is tracked afterwards.
\<close>

theorem start_twice_spawns_twice_counterexample:
  "nodes (fst (snd (start_twice example_controller dying_world beta))) = []
   \<and> filter is_spawn (trace (snd (snd (start_twice example_controller dying_world beta))))
       = [Spawn 100 (start_argv example_controller dying_world beta)
            (build_env dying_world beta) (Some (Stdout, Stderr)),
          Spawn 101 (start_argv example_controller dying_world beta)
            (build_env dying_world beta) (Some (Stdout, Stderr))]"
proof -
  define w1 where "w1 = dying_world\<lparr>next_pid := 101,
      trace := [Spawn 100 (start_argv example_controller dying_world beta)
                  (build_env dying_world beta) (Some (Stdout, Stderr)), Poll 100]\<rparr>"
  have first: "start example_controller dying_world beta = (Returns (), example_controller, w1)"
    using example_start_beta [of dying_world]
    by (simp add: dying_world_fields w1_def)
  have same: "start_argv example_controller w1 beta = start_argv example_controller dying_world beta"
    "build_env w1 beta = build_env dying_world beta"
    by (simp_all add: w1_def start_argv_def build_env_def)
  have w1: "spawn_error w1 cmd = None" "exit_status w1 p = Some 1" "next_pid w1 = 101"
    "trace w1 = [Spawn 100 (start_argv example_controller dying_world beta)
                  (build_env dying_world beta) (Some (Stdout, Stderr)), Poll 100]" for cmd p
    by (simp_all add: w1_def dying_world_fields)
  have second: "start example_controller w1 beta =
      (Returns (), example_controller,
       w1\<lparr>next_pid := 102,
          trace := trace w1 @ [Spawn 101 (start_argv example_controller dying_world beta)
                  (build_env dying_world beta) (Some (Stdout, Stderr)), Poll 101]\<rparr>)"
    using example_start_beta [of w1] by (simp add: w1 same)
  from first second show ?thesis
    by (simp add: start_twice_def example_fields w1 is_spawn_def)
qed

theorem start_idempotent_witness:
  "fst (is_running tracking_controller example_world (node_name alpha))
   \<and> start tracking_controller example_world alpha
       = (Returns (), tracking_controller, example_world\<lparr>trace := [Poll 7]\<rparr>)
   \<and> is_running example_controller example_world (node_name beta)
       = (False, example_controller, example_world)
   \<and> construct_start_command example_controller example_world beta
       = (Returns (start_argv example_controller example_world beta), example_world)
   \<and> spawn_error example_world (start_argv example_controller example_world beta) = None
   \<and> exit_status example_world (next_pid example_world) = None
   \<and> nodes (fst (snd (start example_controller example_world beta)))
       = [(''beta'', \<lparr>pid = 100, returncode = None\<rparr>)]
   \<and> nodes (fst (snd (start_twice example_controller example_world beta)))
       = [(''beta'', \<lparr>pid = 100, returncode = None\<rparr>)]
   \<and> filter is_spawn (trace (snd (snd (start_twice example_controller example_world beta))))
       = [Spawn 100 (start_argv example_controller example_world beta)
            (build_env example_world beta) (Some (Stdout, Stderr))]"
proof -
  have alive: "is_running tracking_controller example_world (node_name alpha)
                 = (True, tracking_controller, example_world\<lparr>trace := [Poll 7]\<rparr>)"
    using is_running_alive [of tracking_controller "''alpha''" "\<lparr>pid = 7, returncode = None\<rparr>"
        example_world]
    by (simp add: tracking_fields example_fields example_world_fields)
  then have a1: "fst (is_running tracking_controller example_world (node_name alpha))" by simp
  note t_alive = start_idempotent [of tracking_controller example_world alpha]
  from t_alive a1
  have a2: "start tracking_controller example_world alpha
       = (Returns (), tracking_controller, example_world\<lparr>trace := [Poll 7]\<rparr>)"
    by (auto simp: tracking_fields example_fields example_world_fields)
  have run: "is_running example_controller example_world (node_name beta)
       = (False, example_controller, example_world)"
    by (rule example_not_running)
  have cmd: "construct_start_command example_controller example_world beta
       = (Returns (start_argv example_controller example_world beta), example_world)"
    by (rule construct_without_genesis) (rule beta_fields)
  have ok: "spawn_error example_world (start_argv example_controller example_world beta) = None"
    and up: "exit_status example_world (next_pid example_world) = None"
    by (simp_all add: example_world_fields)
  note t = start_idempotent [of example_controller example_world beta example_controller
      example_world "start_argv example_controller example_world beta" example_world
      example_world]
  from t run cmd ok up
  have reg: "fst (snd (start example_controller example_world beta)) =
        example_controller\<lparr>nodes := AList.update (node_name beta)
          \<lparr>pid = next_pid example_world, returncode = None\<rparr> (nodes example_controller)\<rparr>"
    and twice: "start_twice example_controller example_world beta =
           (Returns (), fst (snd (start example_controller example_world beta)),
            (snd (snd (start example_controller example_world beta)))
              \<lparr>trace := trace (snd (snd (start example_controller example_world beta)))
                 @ [Poll (next_pid example_world)]\<rparr>)"
    and once: "start example_controller example_world beta =
        (Returns (),
         (if exit_status example_world (next_pid example_world) = None
          then example_controller\<lparr>nodes := AList.update (node_name beta)
                  \<lparr>pid = next_pid example_world, returncode = None\<rparr> (nodes example_controller)\<rparr>
          else example_controller),
         example_world\<lparr>next_pid := Suc (next_pid example_world),
            trace := trace example_world
              @ [Spawn (next_pid example_world) (start_argv example_controller example_world beta)
                   (build_env example_world beta) (Some (Stdout, Stderr)),
                 Poll (next_pid example_world)]\<rparr>)"
    by blast+
  from reg have a3: "nodes (fst (snd (start example_controller example_world beta)))
       = [(''beta'', \<lparr>pid = 100, returncode = None\<rparr>)]"
    by (simp add: beta_fields example_fields example_world_fields)
  from twice a3 have a4: "nodes (fst (snd (start_twice example_controller example_world beta)))
       = [(''beta'', \<lparr>pid = 100, returncode = None\<rparr>)]" by simp
  from twice once
  have a5: "filter is_spawn (trace (snd (snd (start_twice example_controller example_world beta))))
       = [Spawn 100 (start_argv example_controller example_world beta)
            (build_env example_world beta) (Some (Stdout, Stderr))]"
    by (simp add: example_world_fields is_spawn_def)
  from a1 a2 run cmd ok up a3 a4 a5 show ?thesis by (intro conjI)
qed

lemma barren_world_fields:
  "fs barren_world = Map.empty" "trace barren_world = []"
  "makedirs_error barren_world p = None" "open_error barren_world p = None"
  "spawn_error barren_world cmd = Some ''[Errno 2] No such file or directory''"
  "get_executable_script barren_world = get_executable_script example_world"
  by (simp_all add: barren_world_def example_world_def)

lemma barren_construct:
  "construct_start_command example_controller barren_world alpha =
     (Returns (start_argv example_controller example_world alpha),
      barren_world
        \<lparr>fs := [''/etc/sawtooth'' \<mapsto> Dir,
                ''/etc/sawtooth/alpha_bootstrap.json'' \<mapsto> File bootstrap_text],
         trace := [MakeDirs ''/etc/sawtooth'',
                   WriteFile ''/etc/sawtooth/alpha_bootstrap.json'' bootstrap_text]\<rparr>)"
proof -
  have "construct_start_command example_controller barren_world alpha =
          (Returns (start_argv example_controller barren_world alpha),
           barren_world\<lparr>fs := (fs barren_world)(bootstrap_dir example_controller alpha \<mapsto> Dir,
                           bootstrap_path example_controller alpha
                             \<mapsto> File (json_dumps_indent4 (v0_cfg example_controller))),
              trace := trace barren_world @ [MakeDirs (bootstrap_dir example_controller alpha),
                        WriteFile (bootstrap_path example_controller alpha)
                          (json_dumps_indent4 (v0_cfg example_controller))]\<rparr>)"
    by (rule construct_genesis_dir_missing)
       (simp_all add: example_fields barren_world_fields)
  moreover have "start_argv example_controller barren_world alpha
                  = start_argv example_controller example_world alpha"
    by (rule start_argv_world) (rule barren_world_fields)
  ultimately show ?thesis
    by (simp add: example_fields json_dumps_v0_cfg barren_world_fields)
qed

text \<open>
  C10. \<open>start\<close> is not atomic for a genesis node. When the node is not running, the
  command construction has returned and the spawn then fails, \<open>start\<close> raises the
  spawn's error, registers nothing, spawns nothing, and leaves the world the
  construction left: the bootstrap file is on disk with its full text, created or
  overwritten, and the directory created if it was missing.
\<close>

theorem bootstrap_file_survives_failed_spawn:
  assumes "genesis d"
    and "is_running c w (node_name d) = (False, c1, w1)"
    and "construct_start_command c1 w1 d = (Returns cmd, w2)"
    and "spawn_error w cmd = Some msg"
  shows "start c w d = (Raises (OSError msg), c1, w2)
         \<and> map_of (nodes c1) (node_name d) = None
         \<and> fs w2 (bootstrap_path c d) = Some (File (json_dumps_indent4 (v0_cfg c)))
         \<and> trace w2 = trace w1
              @ (if fs w (bootstrap_dir c d) = None then [MakeDirs (bootstrap_dir c d)] else [])
              @ [WriteFile (bootstrap_path c d) (json_dumps_indent4 (v0_cfg c))]
         \<and> filter is_spawn (trace w2) = filter is_spawn (trace w)"
proof -
  from is_running_fields(3,4) [of c w "node_name d"] assms(2)
  have cfg: "base_config c1 = base_config c" "v0_cfg c1 = v0_cfg c" by simp_all
  note w1 = is_running_False_world [OF assms(2)]
  have bd: "bootstrap_dir c1 d = bootstrap_dir c d" "bootstrap_path c1 d = bootstrap_path c d"
    using cfg(1) by (rule bootstrap_of_controller)+
  from construct_world(1) [of c1 w1 d] assms(3) w1(2) have "spawn_error w2 = spawn_error w"
    by simp
  with assms(4) have "spawn_error w2 cmd = Some msg" by simp
  with assms(2,3) have 1: "start c w d = (Raises (OSError msg), c1, w2)"
    by (rule start_spawn_fails)
  from is_running_False_D [OF assms(2)] have 2: "map_of (nodes c1) (node_name d) = None" ..
  from construct_genesis_success(2) [OF assms(1,3)]
  have 3: "fs w2 (bootstrap_path c d) = Some (File (json_dumps_indent4 (v0_cfg c)))"
    by (simp add: cfg bd)
  from construct_genesis_success(3) [OF assms(1,3)]
  have 4: "trace w2 = trace w1
              @ (if fs w (bootstrap_dir c d) = None then [MakeDirs (bootstrap_dir c d)] else [])
              @ [WriteFile (bootstrap_path c d) (json_dumps_indent4 (v0_cfg c))]"
    by (simp add: cfg bd w1(1))
  from construct_world(4) [of c1 w1 d] assms(3) w1(5)
  have 5: "filter is_spawn (trace w2) = filter is_spawn (trace w)" by simp
  from 1 2 3 4 5 show ?thesis by (intro conjI)
qed

theorem bootstrap_file_survives_failed_spawn_witness:
  "genesis alpha
   \<and> is_running example_controller barren_world (node_name alpha)
       = (False, example_controller, barren_world)
   \<and> spawn_error barren_world (start_argv example_controller example_world alpha)
       = Some ''[Errno 2] No such file or directory''
   \<and> fst (start example_controller barren_world alpha)
       = Raises (OSError ''[Errno 2] No such file or directory'')
   \<and> fs (snd (snd (start example_controller barren_world alpha)))
        ''/etc/sawtooth/alpha_bootstrap.json'' = Some (File bootstrap_text)
   \<and> nodes (fst (snd (start example_controller barren_world alpha))) = []"
proof -
  have g: "genesis alpha" by (rule example_fields)
  have r: "is_running example_controller barren_world (node_name alpha)
             = (False, example_controller, barren_world)"
    by (rule example_not_running)
  have s: "spawn_error barren_world (start_argv example_controller example_world alpha)
             = Some ''[Errno 2] No such file or directory''"
    by (rule barren_world_fields)
  note t = bootstrap_file_survives_failed_spawn [OF g r barren_construct s]
  from t have "fst (start example_controller barren_world alpha)
       = Raises (OSError ''[Errno 2] No such file or directory'')"
    "fs (snd (snd (start example_controller barren_world alpha)))
        ''/etc/sawtooth/alpha_bootstrap.json'' = Some (File bootstrap_text)"
    "nodes (fst (snd (start example_controller barren_world alpha))) = []"
    by (simp_all add: example_fields)
  with g r s show ?thesis by (intro conjI)
qed

section \<open>Genesis bootstrap\<close>

lemma genesis_running:
  "fst (is_running c w (node_name d)) \<Longrightarrow>
   create_genesis_block c w d = (Returns (), snd (is_running c w (node_name d)))"
  by (cases "is_running c w (node_name d)") (simp add: create_genesis_block_def)

lemma genesis_not_running_raw:
  assumes run: "is_running c w (node_name d) = (False, c1, w1)"
  shows "create_genesis_block c w d =
   (case spawn_error w1 (keygen_argv c1 w1 d) of
      Some msg \<Rightarrow> (Raises (OSError msg), c1, w1)
    | None \<Rightarrow>
        (case wait_status w1 (next_pid w1) of
           None \<Rightarrow>
             (Blocks, c1,
              w1\<lparr>next_pid := Suc (next_pid w1),
                 trace := trace w1 @ [Spawn (next_pid w1) (keygen_argv c1 w1 d) (build_env w1 d) None]\<rparr>)
         | Some rc \<Rightarrow>
             (case spawn_error w1 (genesis_argv c1 w1 d) of
                Some msg \<Rightarrow>
                  (Raises (OSError msg), c1,
                   w1\<lparr>next_pid := Suc (next_pid w1),
                     trace := trace w1 @ [Spawn (next_pid w1) (keygen_argv c1 w1 d) (build_env w1 d) None,
                                          Waited (next_pid w1) rc]\<rparr>)
              | None \<Rightarrow>
                  (case wait_status w1 (Suc (next_pid w1)) of
                     None \<Rightarrow>
                       (Blocks, c1,
                        w1\<lparr>next_pid := Suc (Suc (next_pid w1)),
                          trace := trace w1 @ [Spawn (next_pid w1) (keygen_argv c1 w1 d) (build_env w1 d) None,
                                              Waited (next_pid w1) rc,
                                              Spawn (Suc (next_pid w1)) (genesis_argv c1 w1 d)
                                                (build_env w1 d) None]\<rparr>)
                   | Some rc' \<Rightarrow>
                       (Returns (), c1,
                        w1\<lparr>next_pid := Suc (Suc (next_pid w1)),
                          trace := trace w1 @ [Spawn (next_pid w1) (keygen_argv c1 w1 d) (build_env w1 d) None,
                                              Waited (next_pid w1) rc,
                                              Spawn (Suc (next_pid w1)) (genesis_argv c1 w1 d)
                                                (build_env w1 d) None,
                                              Waited (Suc (next_pid w1)) rc']\<rparr>)))))"
  unfolding create_genesis_block_def run
  by (simp add: and_then_def popen_spawn_def popen_wait_def foldl_config keygen_argv_def
      genesis_argv_def build_env_def Let_def split: option.splits)

lemma genesis_argv_cong:
  assumes "verbose c1 = verbose c" and "base_config c1 = base_config c"
    and "get_executable_script w1 = get_executable_script w"
  shows "keygen_argv c1 w1 d = keygen_argv c w d" and "genesis_argv c1 w1 d = genesis_argv c w d"
  using assms by (simp_all add: keygen_argv_def genesis_argv_def split: option.splits)

text \<open>
  C4. \<open>create_genesis_block\<close> does its work only when \<open>is_running\<close> answers \<open>False\<close>;
  when it answers \<open>True\<close> the method returns after the liveness poll and touches
  nothing else. When it runs, the key generation helper is spawned first and waited
  for, and only after that wait has returned is the genesis helper spawned and waited
  for; both are spawned with the environment \<open>build_env\<close> gives. Whatever goes wrong
  (a spawn that raises, a helper that never exits), what has been done by then is an
  initial part of that sequence, and when nothing goes wrong the method returns after
  all four steps.
\<close>

theorem genesis_ordering:
  "(fst (is_running c w (node_name d)) \<longrightarrow>
      (\<exists>h. map_of (nodes c) (node_name d) = Some h
          \<and> create_genesis_block c w d = (Returns (), c, w\<lparr>trace := trace w @ [Poll (pid h)]\<rparr>)))
   \<and> (is_running c w (node_name d) = (False, c1, w1) \<longrightarrow>
        (let p = next_pid w;
             keygen = Spawn p (keygen_argv c w d) (build_env w d) None;
             author = Spawn (Suc p) (genesis_argv c w d) (build_env w d) None
         in create_genesis_block c w d =
              (case spawn_error w (keygen_argv c w d) of
                 Some msg \<Rightarrow> (Raises (OSError msg), c1, w1)
               | None \<Rightarrow>
                   (case wait_status w p of
                      None \<Rightarrow>
                        (Blocks, c1, w1\<lparr>next_pid := Suc p, trace := trace w1 @ [keygen]\<rparr>)
                    | Some rc \<Rightarrow>
                        (case spawn_error w (genesis_argv c w d) of
                           Some msg \<Rightarrow>
                             (Raises (OSError msg), c1,
                              w1\<lparr>next_pid := Suc p, trace := trace w1 @ [keygen, Waited p rc]\<rparr>)
                         | None \<Rightarrow>
                             (case wait_status w (Suc p) of
                                None \<Rightarrow>
                                  (Blocks, c1,
                                   w1\<lparr>next_pid := Suc (Suc p),
                                      trace := trace w1 @ [keygen, Waited p rc, author]\<rparr>)
                              | Some rc' \<Rightarrow>
                                  (Returns (), c1,
                                   w1\<lparr>next_pid := Suc (Suc p),
                                      trace := trace w1
                                        @ [keygen, Waited p rc, author, Waited (Suc p) rc']\<rparr>)))))))"
proof (intro conjI impI)
  assume r: "fst (is_running c w (node_name d))"
  from is_running_fst_True_D [OF r] obtain h where
    h: "map_of (nodes c) (node_name d) = Some h"
    "is_running c w (node_name d) = (True, c, w\<lparr>trace := trace w @ [Poll (pid h)]\<rparr>)" by blast
  from genesis_running [OF r] h(2)
  have "create_genesis_block c w d = (Returns (), c, w\<lparr>trace := trace w @ [Poll (pid h)]\<rparr>)"
    by simp
  with h(1) show "\<exists>h. map_of (nodes c) (node_name d) = Some h
          \<and> create_genesis_block c w d = (Returns (), c, w\<lparr>trace := trace w @ [Poll (pid h)]\<rparr>)"
    by blast
next
  assume run: "is_running c w (node_name d) = (False, c1, w1)"
  from is_running_fields(2,3) [of c w "node_name d"] run
  have cfg: "verbose c1 = verbose c" "base_config c1 = base_config c" by simp_all
  note w1 = is_running_False_world [OF run]
  note argv = genesis_argv_cong [OF cfg w1(6), of d]
  have env: "build_env w1 d = build_env w d" using w1(9,10) by (rule build_env_world)
  show "let p = next_pid w;
             keygen = Spawn p (keygen_argv c w d) (build_env w d) None;
             author = Spawn (Suc p) (genesis_argv c w d) (build_env w d) None
         in create_genesis_block c w d =
              (case spawn_error w (keygen_argv c w d) of
                 Some msg \<Rightarrow> (Raises (OSError msg), c1, w1)
               | None \<Rightarrow>
                   (case wait_status w p of
                      None \<Rightarrow>
                        (Blocks, c1, w1\<lparr>next_pid := Suc p, trace := trace w1 @ [keygen]\<rparr>)
                    | Some rc \<Rightarrow>
                        (case spawn_error w (genesis_argv c w d) of
                           Some msg \<Rightarrow>
                             (Raises (OSError msg), c1,
                              w1\<lparr>next_pid := Suc p, trace := trace w1 @ [keygen, Waited p rc]\<rparr>)
                         | None \<Rightarrow>
                             (case wait_status w (Suc p) of
                                None \<Rightarrow>
                                  (Blocks, c1,
                                   w1\<lparr>next_pid := Suc (Suc p),
                                      trace := trace w1 @ [keygen, Waited p rc, author]\<rparr>)
                              | Some rc' \<Rightarrow>
                                  (Returns (), c1,
                                   w1\<lparr>next_pid := Suc (Suc p),
                                      trace := trace w1
                                        @ [keygen, Waited p rc, author, Waited (Suc p) rc']\<rparr>)))))"
    unfolding Let_def genesis_not_running_raw [OF run] argv env w1(2,4,11) ..
qed

lemma example_genesis_argv:
  "keygen_argv example_controller example_world alpha =
     [''/project/bin/sawtooth'', ''keygen'', ''alpha'', ''--key-dir'', ''/etc/sawtooth/keys'',
      ''--quiet'']"
  "genesis_argv example_controller example_world alpha =
     [''/project/bin/sawtooth'', ''admin'', ''poet0-genesis'', ''--node'', ''alpha'',
      ''--config'', ''base.json'']"
  "build_env example_world alpha = [(''HOME'', ''/root''), (''PYTHONPATH'', ''/project/core'')]"
  by (simp_all add: keygen_argv_def genesis_argv_def build_env_def os_pathsep_def alpha_def
      example_controller_def example_config_def init_def example_world_def)

theorem genesis_ordering_witness:
  "fst (is_running tracking_controller example_world (node_name alpha))
   \<and> create_genesis_block tracking_controller example_world alpha
       = (Returns (), tracking_controller, example_world\<lparr>trace := [Poll 7]\<rparr>)
   \<and> is_running example_controller example_world (node_name alpha)
       = (False, example_controller, example_world)
   \<and> create_genesis_block example_controller example_world alpha
       = (Returns (), example_controller,
          example_world
            \<lparr>next_pid := 102,
             trace :=
               [Spawn 100 [''/project/bin/sawtooth'', ''keygen'', ''alpha'', ''--key-dir'',
                           ''/etc/sawtooth/keys'', ''--quiet'']
                  [(''HOME'', ''/root''), (''PYTHONPATH'', ''/project/core'')] None,
                Waited 100 0,
                Spawn 101 [''/project/bin/sawtooth'', ''admin'', ''poet0-genesis'', ''--node'',
                           ''alpha'', ''--config'', ''base.json'']
                  [(''HOME'', ''/root''), (''PYTHONPATH'', ''/project/core'')] None,
                Waited 101 0]\<rparr>)"
proof -
  have alive: "is_running tracking_controller example_world (node_name alpha)
                 = (True, tracking_controller, example_world\<lparr>trace := [Poll 7]\<rparr>)"
    using is_running_alive [of tracking_controller "''alpha''" "\<lparr>pid = 7, returncode = None\<rparr>"
        example_world]
    by (simp add: tracking_fields example_fields example_world_fields)
  then have a1: "fst (is_running tracking_controller example_world (node_name alpha))" by simp
  note skipped = genesis_ordering [of tracking_controller example_world alpha]
  from skipped a1
  have a2: "create_genesis_block tracking_controller example_world alpha
       = (Returns (), tracking_controller, example_world\<lparr>trace := [Poll 7]\<rparr>)"
    by (auto simp: tracking_fields example_fields example_world_fields)
  have run: "is_running example_controller example_world (node_name alpha)
       = (False, example_controller, example_world)"
    by (rule example_not_running)
  note ran = genesis_ordering [of example_controller example_world alpha
      example_controller example_world]
  from ran run
  have a3: "create_genesis_block example_controller example_world alpha
       = (Returns (), example_controller,
          example_world
            \<lparr>next_pid := 102,
             trace :=
               [Spawn 100 [''/project/bin/sawtooth'', ''keygen'', ''alpha'', ''--key-dir'',
                           ''/etc/sawtooth/keys'', ''--quiet'']
                  [(''HOME'', ''/root''), (''PYTHONPATH'', ''/project/core'')] None,
                Waited 100 0,
                Spawn 101 [''/project/bin/sawtooth'', ''admin'', ''poet0-genesis'', ''--node'',
                           ''alpha'', ''--config'', ''base.json'']
                  [(''HOME'', ''/root''), (''PYTHONPATH'', ''/project/core'')] None,
                Waited 101 0]\<rparr>)"
    by (simp add: Let_def example_genesis_argv example_world_fields)
  from a1 a2 run a3 show ?thesis by (intro conjI)
qed

section \<open>The registry as a conservative cache\<close>












section \<open>Host invariance\<close>

text \<open>
  C8. For every node name, tracked or not, \<open>get_ip\<close> returns the controller's configured
  host name and leaves the controller and the world as they were; so it returns the
  same string for any two node names.
\<close>

theorem get_ip_host_invariant:
  "get_ip c w name = (host_name c, c, w) \<and> fst (get_ip c w name) = fst (get_ip c w name')"
  by (simp add: get_ip_def)

end
